theory Spec2Isabelle
  imports Complex_Main
begin

section \<open>JavaScript strings and numbers used by the course service\<close>

text \<open>
  Strings are byte strings; the model is exact on ASCII input. The white space removed by
  \<^verbatim>\<open>String.prototype.trim\<close> is tab, line feed, vertical tab, form feed, carriage
  return and space.
\<close>

definition is_ws :: "char \<Rightarrow> bool" where
  "is_ws c = (c \<in> set [CHR 0x09, CHR 0x0A, CHR 0x0B, CHR 0x0C, CHR 0x0D, CHR 0x20])"

definition js_trim :: "string \<Rightarrow> string" where
  "js_trim s = rev (dropWhile is_ws (rev (dropWhile is_ws s)))"

definition lower_letters :: string where
  "lower_letters = ''abcdefghijklmnopqrstuvwxyz''"

definition upper_letters :: string where
  "upper_letters = ''ABCDEFGHIJKLMNOPQRSTUVWXYZ''"

definition upper_char :: "char \<Rightarrow> char" where
  "upper_char c = (case map_of (zip lower_letters upper_letters) c of Some u \<Rightarrow> u | None \<Rightarrow> c)"

definition lower_char :: "char \<Rightarrow> char" where
  "lower_char c = (case map_of (zip upper_letters lower_letters) c of Some l \<Rightarrow> l | None \<Rightarrow> c)"

definition toUpperCase :: "string \<Rightarrow> string" where
  "toUpperCase s = map upper_char s"

definition toLowerCase :: "string \<Rightarrow> string" where
  "toLowerCase s = map lower_char s"

text \<open>\<^verbatim>\<open>Array.prototype.join\<close> on an array of strings.\<close>

fun js_join :: "string \<Rightarrow> string list \<Rightarrow> string" where
  "js_join sep [] = []"
| "js_join sep [x] = x"
| "js_join sep (x # y # ys) = x @ sep @ js_join sep (y # ys)"

text \<open>\<^verbatim>\<open>s.split(c)\<close> for a one-character separator: always at least one piece.\<close>

fun js_split :: "char \<Rightarrow> string \<Rightarrow> string list" where
  "js_split c [] = [[]]"
| "js_split c (x # xs) =
     (if x = c then [] # js_split c xs
      else (case js_split c xs of [] \<Rightarrow> [[x]] | p # ps \<Rightarrow> (x # p) # ps))"

definition digit_chars :: string where
  "digit_chars = ''0123456789''"

definition is_digit :: "char \<Rightarrow> bool" where
  "is_digit c = (c \<in> set digit_chars)"

definition digit_val :: "char \<Rightarrow> nat" where
  "digit_val c = (case map_of (zip digit_chars [0, 1, 2, 3, 4, 5, 6, 7, 8, 9]) c of Some d \<Rightarrow> d | None \<Rightarrow> 0)"

fun digits_val :: "nat \<Rightarrow> string \<Rightarrow> nat" where
  "digits_val acc [] = acc"
| "digits_val acc (c # cs) = digits_val (10 * acc + digit_val c) cs"

function show_nat :: "nat \<Rightarrow> string" where
  "show_nat n = (if n < 10 then [digit_chars ! n] else show_nat (n div 10) @ [digit_chars ! (n mod 10)])"
  by pat_completeness auto
termination
  by (relation "measure id") auto

declare show_nat.simps [simp del]

text \<open>
  JavaScript numbers: the finite values are modelled by exact rationals (no rounding to
  the nearest double, no overflow to infinity); negative zero, NaN and the two infinities
  are values of their own. The model therefore agrees with the code on the numbers a
  double holds exactly, which include the integers below \<open>2 ^ 53\<close>, and may differ on
  others: a decimal that is not a double is kept as written, a product such as
  \<^verbatim>\<open>1.005 * 100\<close> is exact, and a literal beyond the largest double stays finite.
\<close>

datatype jsnum = Fin rat | NegZero | NaN | PInf | NInf

text \<open>Truthiness of a number: \<^verbatim>\<open>0\<close>, \<^verbatim>\<open>-0\<close> and \<^verbatim>\<open>NaN\<close> are falsy.\<close>

fun num_truthy :: "jsnum \<Rightarrow> bool" where
  "num_truthy (Fin r) = (r \<noteq> 0)"
| "num_truthy NegZero = False"
| "num_truthy NaN = False"
| "num_truthy PInf = True"
| "num_truthy NInf = True"

text \<open>\<^verbatim>\<open>x || 0\<close> on a number.\<close>

definition or_zero :: "jsnum \<Rightarrow> jsnum" where
  "or_zero x = (if num_truthy x then x else Fin 0)"

text \<open>The relation \<^verbatim>\<open><\<close> on numbers; every comparison with NaN is false.\<close>

fun js_less :: "jsnum \<Rightarrow> jsnum \<Rightarrow> bool" where
  "js_less NaN _ = False"
| "js_less _ NaN = False"
| "js_less PInf _ = False"
| "js_less _ PInf = True"
| "js_less _ NInf = False"
| "js_less NInf _ = True"
| "js_less (Fin a) (Fin b) = (a < b)"
| "js_less (Fin a) NegZero = (a < 0)"
| "js_less NegZero (Fin b) = (0 < b)"
| "js_less NegZero NegZero = False"

text \<open>\<^verbatim>\<open>Math.min(x, 5)\<close>.\<close>

definition js_min :: "jsnum \<Rightarrow> jsnum \<Rightarrow> jsnum" where
  "js_min x y = (if x = NaN \<or> y = NaN then NaN else if js_less y x then y else x)"

definition signed :: "bool \<Rightarrow> rat \<Rightarrow> jsnum" where
  "signed neg r = (if r = 0 then (if neg then NegZero else Fin 0) else Fin (if neg then - r else r))"

text \<open>
  \<^verbatim>\<open>parseFloat\<close>: leading white space, an optional sign, then \<^verbatim>\<open>Infinity\<close> or the longest
  decimal literal (digits, an optional fraction, an optional exponent); NaN when there is
  none.
\<close>

definition strip_sign :: "string \<Rightarrow> bool \<times> string" where
  "strip_sign s = (case s of [] \<Rightarrow> (False, [])
     | c # cs \<Rightarrow> if c = CHR ''-'' then (True, cs) else if c = CHR ''+'' then (False, cs) else (False, s))"

definition parse_exponent :: "string \<Rightarrow> int" where
  "parse_exponent s = (case s of [] \<Rightarrow> 0
     | c # cs \<Rightarrow>
        if c = CHR ''e'' \<or> c = CHR ''E'' then
          (let (neg, ds) = strip_sign cs; es = takeWhile is_digit ds
           in if es = [] then 0 else (if neg then - int (digits_val 0 es) else int (digits_val 0 es)))
        else 0)"

definition pow10 :: "int \<Rightarrow> rat" where
  "pow10 e = (if 0 \<le> e then 10 ^ nat e else 1 / 10 ^ nat (- e))"

definition parseFloat :: "string \<Rightarrow> jsnum" where
  "parseFloat s =
     (let (neg, u) = strip_sign (dropWhile is_ws s) in
      if take 8 u = ''Infinity'' then (if neg then NInf else PInf)
      else
        let ip = takeWhile is_digit u;
            r1 = dropWhile is_digit u;
            has_dot = (r1 \<noteq> [] \<and> hd r1 = CHR ''.'');
            fp = (if has_dot then takeWhile is_digit (tl r1) else []);
            r2 = (if has_dot then dropWhile is_digit (tl r1) else r1)
        in if ip = [] \<and> fp = [] then NaN
           else signed neg (rat_of_nat (digits_val 0 (ip @ fp)) / 10 ^ length fp * pow10 (parse_exponent r2)))"

text \<open>
  \<^verbatim>\<open>parseInt\<close> with no radix: leading white space, an optional sign, an optional
  \<^verbatim>\<open>0x\<close> prefix (hexadecimal), then the longest run of digits; NaN when there is none.
\<close>

definition hex_chars :: string where
  "hex_chars = ''0123456789abcdef''"

definition is_hex :: "char \<Rightarrow> bool" where
  "is_hex c = (lower_char c \<in> set hex_chars)"

definition hex_val :: "char \<Rightarrow> nat" where
  "hex_val c = (case map_of (zip hex_chars [0, 1, 2, 3, 4, 5, 6, 7, 8, 9, 10, 11, 12, 13, 14, 15]) (lower_char c) of Some d \<Rightarrow> d | None \<Rightarrow> 0)"

fun hex_digits_val :: "nat \<Rightarrow> string \<Rightarrow> nat" where
  "hex_digits_val acc [] = acc"
| "hex_digits_val acc (c # cs) = hex_digits_val (16 * acc + hex_val c) cs"

definition parseInt :: "string \<Rightarrow> jsnum" where
  "parseInt s =
     (let (neg, u) = strip_sign (dropWhile is_ws s) in
      if take 2 u = ''0x'' \<or> take 2 u = ''0X'' then
        (let ds = takeWhile is_hex (drop 2 u)
         in if ds = [] then NaN else signed neg (rat_of_nat (hex_digits_val 0 ds)))
      else
        (let ds = takeWhile is_digit u
         in if ds = [] then NaN else signed neg (rat_of_nat (digits_val 0 ds))))"

text \<open>A request parameter that is a number by default and a string when supplied.\<close>

datatype qparam = QNum jsnum | QStr string

fun parseInt_q :: "qparam \<Rightarrow> jsnum" where
  "parseInt_q (QNum n) = n"
| "parseInt_q (QStr s) = parseInt s"

text \<open>
  \<^verbatim>\<open>String(n)\<close> as template literals and \<^verbatim>\<open>join\<close> apply it; it is used on the results
  of \<^verbatim>\<open>parseInt\<close> and on the defaults 1 and 10, which are integers, \<^verbatim>\<open>-0\<close> or NaN.
  An integer is printed digit by digit, as the code does below \<open>10 ^ 21\<close>; from there on
  the code prints an exponent form, which is not modelled.
\<close>

fun num_to_string :: "jsnum \<Rightarrow> string" where
  "num_to_string (Fin r) =
     (if r < 0 then ''-'' @ show_nat (nat (- \<lfloor>r\<rfloor>)) else show_nat (nat \<lfloor>r\<rfloor>))"
| "num_to_string NegZero = ''0''"
| "num_to_string NaN = ''NaN''"
| "num_to_string PInf = ''Infinity''"
| "num_to_string NInf = ''-Infinity''"

fun qparam_to_string :: "qparam \<Rightarrow> string" where
  "qparam_to_string (QNum n) = num_to_string n"
| "qparam_to_string (QStr s) = s"

text \<open>Arithmetic on numbers as the handlers use it: \<^verbatim>\<open>x - 1\<close>, \<^verbatim>\<open>x * y\<close>, \<^verbatim>\<open>x / y\<close>,
  \<^verbatim>\<open>Math.ceil\<close>, \<^verbatim>\<open>Math.round\<close>.\<close>

fun is_zero :: "jsnum \<Rightarrow> bool" where
  "is_zero (Fin r) = (r = 0)"
| "is_zero NegZero = True"
| "is_zero _ = False"

fun is_inf :: "jsnum \<Rightarrow> bool" where
  "is_inf PInf = True"
| "is_inf NInf = True"
| "is_inf _ = False"

fun sign_neg :: "jsnum \<Rightarrow> bool" where
  "sign_neg (Fin r) = (r < 0)"
| "sign_neg NegZero = True"
| "sign_neg NInf = True"
| "sign_neg _ = False"

fun magnitude :: "jsnum \<Rightarrow> rat" where
  "magnitude (Fin r) = \<bar>r\<bar>"
| "magnitude _ = 0"

fun js_sub1 :: "jsnum \<Rightarrow> jsnum" where
  "js_sub1 (Fin r) = Fin (r - 1)"
| "js_sub1 NegZero = Fin (- 1)"
| "js_sub1 x = x"

definition js_mul :: "jsnum \<Rightarrow> jsnum \<Rightarrow> jsnum" where
  "js_mul x y =
     (if x = NaN \<or> y = NaN then NaN
      else if (is_inf x \<and> is_zero y) \<or> (is_zero x \<and> is_inf y) then NaN
      else if is_inf x \<or> is_inf y then (if sign_neg x \<noteq> sign_neg y then NInf else PInf)
      else signed (sign_neg x \<noteq> sign_neg y) (magnitude x * magnitude y))"

definition js_div :: "jsnum \<Rightarrow> jsnum \<Rightarrow> jsnum" where
  "js_div x y =
     (if x = NaN \<or> y = NaN then NaN
      else if (is_inf x \<and> is_inf y) \<or> (is_zero x \<and> is_zero y) then NaN
      else if is_inf x \<or> is_zero y then (if sign_neg x \<noteq> sign_neg y then NInf else PInf)
      else if is_inf y then signed (sign_neg x \<noteq> sign_neg y) 0
      else signed (sign_neg x \<noteq> sign_neg y) (magnitude x / magnitude y))"

fun js_ceil :: "jsnum \<Rightarrow> jsnum" where
  "js_ceil (Fin r) = (if r < 0 \<and> - 1 < r then NegZero else Fin (of_int \<lceil>r\<rceil>))"
| "js_ceil x = x"

fun js_round :: "jsnum \<Rightarrow> jsnum" where
  "js_round (Fin r) = (if r < 0 \<and> - (1 / 2) \<le> r then NegZero else Fin (of_int \<lfloor>r + 1 / 2\<rfloor>))"
| "js_round x = x"

section \<open>The course schema\<close>

text \<open>
  A stored course document. \<open>oid\<close> is the field \<^verbatim>\<open>_id\<close> (the ObjectId, as the string
  \<^verbatim>\<open>toString\<close> gives); the timestamps are milliseconds.
\<close>

record course =
  oid :: string
  course_id :: string
  title :: string
  description :: string
  category :: string
  instructor :: string
  duration :: jsnum
  level :: string
  price :: jsnum
  enrollments :: jsnum
  rating :: jsnum
  tags :: "string list"
  prerequisites :: "string list"
  learning_outcomes :: "string list"
  thumbnail_url :: string
  status :: string
  created_by :: string
  created_at :: nat
  updated_at :: nat

text \<open>
  The object given to \<^verbatim>\<open>new Course(...)\<close>: every path may be absent (\<open>None\<close> is
  \<^verbatim>\<open>undefined\<close>); an absent array is the empty array.
\<close>

record course_input =
  in_course_id :: "string option"
  in_title :: "string option"
  in_description :: "string option"
  in_category :: "string option"
  in_instructor :: "string option"
  in_duration :: "jsnum option"
  in_level :: "string option"
  in_price :: "jsnum option"
  in_enrollments :: "jsnum option"
  in_rating :: "jsnum option"
  in_tags :: "string list"
  in_prerequisites :: "string list"
  in_learning_outcomes :: "string list"
  in_thumbnail_url :: "string option"
  in_status :: "string option"
  in_created_by :: "string option"

definition default_thumbnail :: string where
  "default_thumbnail = ''https://images.pexels.com/photos/3861958/pexels-photo-3861958.jpeg''"

definition validCategories :: "string list" where
  "validCategories =
     [''Programming'', ''Data Science'', ''Web Development'', ''Mobile Development'',
      ''Machine Learning'', ''DevOps'', ''Database'', ''Cloud Computing'',
      ''Cybersecurity'', ''UI/UX Design'', ''Digital Marketing'', ''Business'', ''Other'']"

definition validLevels :: "string list" where
  "validLevels = [''Beginner'', ''Intermediate'', ''Advanced'']"

definition validStatuses :: "string list" where
  "validStatuses = [''draft'', ''published'', ''archived'']"

definition with_default :: "'a \<Rightarrow> 'a option \<Rightarrow> 'a option" where
  "with_default d v = (case v of None \<Rightarrow> Some d | Some x \<Rightarrow> Some x)"

text \<open>
  Constructing the document: the schema's setters (\<^verbatim>\<open>trim\<close>, \<^verbatim>\<open>uppercase\<close>,
  \<^verbatim>\<open>lowercase\<close>) and its defaults, among them \<^verbatim>\<open>status: 'published'\<close>.
\<close>

definition new_Course :: "course_input \<Rightarrow> course_input" where
  "new_Course d =
     \<lparr> in_course_id = map_option (\<lambda>s. toUpperCase (js_trim s)) (in_course_id d),
       in_title = map_option js_trim (in_title d),
       in_description = map_option js_trim (in_description d),
       in_category = map_option js_trim (in_category d),
       in_instructor = map_option js_trim (in_instructor d),
       in_duration = in_duration d,
       in_level = with_default ''Beginner'' (in_level d),
       in_price = with_default (Fin 0) (in_price d),
       in_enrollments = with_default (Fin 0) (in_enrollments d),
       in_rating = with_default (Fin 0) (in_rating d),
       in_tags = map (\<lambda>s. toLowerCase (js_trim s)) (in_tags d),
       in_prerequisites = map js_trim (in_prerequisites d),
       in_learning_outcomes = map js_trim (in_learning_outcomes d),
       in_thumbnail_url = with_default default_thumbnail (map_option js_trim (in_thumbnail_url d)),
       in_status = with_default ''published'' (in_status d),
       in_created_by = with_default ''admin'' (in_created_by d) \<rparr>"

text \<open>
  The validators of the schema, one error (path, message) per failing path. The errors
  are listed in the order of the schema; the order in which Mongoose reports them is not
  modelled.
\<close>

definition enum_message :: "string \<Rightarrow> string \<Rightarrow> string" where
  "enum_message v path =
     [CHR 0x60] @ v @ [CHR 0x60] @ '' is not a valid enum value for path '' @ [CHR 0x60] @ path @ [CHR 0x60] @ ''.''"

definition check_string ::
  "string \<Rightarrow> string option \<Rightarrow> string \<Rightarrow> nat \<Rightarrow> string \<Rightarrow> nat \<Rightarrow> string \<Rightarrow> (string \<times> string) list" where
  "check_string path v req_msg lo lo_msg hi hi_msg =
     (case v of None \<Rightarrow> [(path, req_msg)]
      | Some s \<Rightarrow>
          if s = [] then [(path, req_msg)]
          else if length s < lo then [(path, lo_msg)]
          else if hi < length s then [(path, hi_msg)]
          else [])"

definition check_enum :: "string \<Rightarrow> string option \<Rightarrow> string list \<Rightarrow> (string \<times> string) list" where
  "check_enum path v allowed =
     (case v of None \<Rightarrow> []
      | Some s \<Rightarrow> if s \<in> set allowed then [] else [(path, enum_message s path)])"

definition check_min :: "string \<Rightarrow> jsnum option \<Rightarrow> rat \<Rightarrow> string \<Rightarrow> (string \<times> string) list" where
  "check_min path v lo msg =
     (case v of None \<Rightarrow> []
      | Some n \<Rightarrow> if n = NaN \<or> js_less n (Fin lo) then [(path, msg)] else [])"

definition check_max :: "string \<Rightarrow> jsnum option \<Rightarrow> rat \<Rightarrow> string \<Rightarrow> (string \<times> string) list" where
  "check_max path v hi msg =
     (case v of None \<Rightarrow> []
      | Some n \<Rightarrow> if n = NaN \<or> js_less (Fin hi) n then [(path, msg)] else [])"

definition first_error :: "(string \<times> string) list list \<Rightarrow> (string \<times> string) list" where
  "first_error es = (case filter (\<lambda>e. e \<noteq> []) es of [] \<Rightarrow> [] | e # _ \<Rightarrow> e)"

definition validate :: "course_input \<Rightarrow> (string \<times> string) list" where
  "validate d =
     (case in_course_id d of None \<Rightarrow> [(''course_id'', ''Course ID is required'')]
      | Some s \<Rightarrow> if s = [] then [(''course_id'', ''Course ID is required'')] else [])
     @ check_string ''title'' (in_title d) ''Course title is required''
         3 ''Title must be at least 3 characters long'' 200 ''Title cannot exceed 200 characters''
     @ check_string ''description'' (in_description d) ''Course description is required''
         10 ''Description must be at least 10 characters long''
         2000 ''Description cannot exceed 2000 characters''
     @ first_error
         [(case in_category d of None \<Rightarrow> [(''category'', ''Course category is required'')]
           | Some s \<Rightarrow> if s = [] then [(''category'', ''Course category is required'')] else []),
          check_enum ''category'' (in_category d) validCategories]
     @ check_string ''instructor'' (in_instructor d) ''Instructor name is required''
         2 ''Instructor name must be at least 2 characters long''
         100 ''Instructor name cannot exceed 100 characters''
     @ first_error
         [(case in_duration d of None \<Rightarrow> [(''duration'', ''Course duration is required'')]
           | Some _ \<Rightarrow> []),
          check_min ''duration'' (in_duration d) 1 ''Duration must be at least 1 hour'',
          check_max ''duration'' (in_duration d) 1000 ''Duration cannot exceed 1000 hours'']
     @ check_enum ''level'' (in_level d) validLevels
     @ check_min ''price'' (in_price d) 0 ''Price cannot be negative''
     @ check_min ''enrollments'' (in_enrollments d) 0 ''Enrollments cannot be negative''
     @ first_error
         [check_min ''rating'' (in_rating d) 0 ''Rating cannot be negative'',
          check_max ''rating'' (in_rating d) 5 ''Rating cannot exceed 5'']
     @ check_enum ''status'' (in_status d) validStatuses"

text \<open>
  The \<^verbatim>\<open>pre('save')\<close> hook: a course without \<^verbatim>\<open>course_id\<close> gets one made of the initials
  of the title and the last four digits of the clock. Validation runs before the hook.
\<close>

definition generated_course_id :: "string \<Rightarrow> nat \<Rightarrow> string" where
  "generated_course_id t now =
     take 4 (concat (map (\<lambda>w. toUpperCase (take 1 w)) (js_split CHR '' '' t)))
     @ (let s = show_nat now in drop (length s - 4) s)"

definition opt_string :: "string option \<Rightarrow> string" where
  "opt_string v = (case v of None \<Rightarrow> [] | Some s \<Rightarrow> s)"

definition opt_num :: "jsnum option \<Rightarrow> jsnum" where
  "opt_num v = (case v of None \<Rightarrow> NaN | Some n \<Rightarrow> n)"

definition pre_save :: "nat \<Rightarrow> course_input \<Rightarrow> course_input" where
  "pre_save now d =
     (if opt_string (in_course_id d) = []
      then d\<lparr>in_course_id := Some (generated_course_id (opt_string (in_title d)) now)\<rparr>
      else d)"

definition to_course :: "string \<Rightarrow> nat \<Rightarrow> course_input \<Rightarrow> course" where
  "to_course i now d =
     \<lparr> oid = i,
       course_id = opt_string (in_course_id d),
       title = opt_string (in_title d),
       description = opt_string (in_description d),
       category = opt_string (in_category d),
       instructor = opt_string (in_instructor d),
       duration = opt_num (in_duration d),
       level = opt_string (in_level d),
       price = opt_num (in_price d),
       enrollments = opt_num (in_enrollments d),
       rating = opt_num (in_rating d),
       tags = in_tags d,
       prerequisites = in_prerequisites d,
       learning_outcomes = in_learning_outcomes d,
       thumbnail_url = opt_string (in_thumbnail_url d),
       status = opt_string (in_status d),
       created_by = opt_string (in_created_by d),
       created_at = now,
       updated_at = now \<rparr>"


section \<open>The record store (the Mongoose model \<^verbatim>\<open>Course\<close>)\<close>

text \<open>
  The collection is the list of its documents in insertion order. \<open>next_oid\<close> numbers the
  ObjectIds handed out so far; \<open>db_fault\<close> is \<open>Some msg\<close> while the database rejects
  every operation with the error \<open>msg\<close>.
\<close>

record db =
  docs :: "course list"
  next_oid :: nat
  db_fault :: "string option"

datatype 'a promise = Rejected string | Resolved 'a

datatype save_error = ValidationError "(string \<times> string) list" | DuplicateKey | OtherError string

text \<open>\<^verbatim>\<open>error.message\<close>; the duplicate-key error is the one with \<^verbatim>\<open>error.code === 11000\<close>.\<close>

fun error_message :: "save_error \<Rightarrow> string" where
  "error_message (ValidationError es) =
     ''Course validation failed: '' @ js_join '', '' (map (\<lambda>(p, m). p @ '': '' @ m) es)"
| "error_message DuplicateKey = ''E11000 duplicate key error''"
| "error_message (OtherError m) = m"

definition mk_oid :: "nat \<Rightarrow> string" where
  "mk_oid n = replicate (24 - length (show_nat n)) CHR ''0'' @ show_nat n"

text \<open>
  \<^verbatim>\<open>new Course(data).save()\<close>, as Mongoose runs it on the schema above: validation, the
  pre-save hook, then the insert, which the unique index on \<^verbatim>\<open>course_id\<close> refuses for a
  duplicate. The clock \<open>now\<close>, in milliseconds, stamps the document.
\<close>

definition course_save :: "nat \<Rightarrow> db \<Rightarrow> course_input \<Rightarrow> save_error + (course \<times> db)" where
  "course_save now d inp =
     (case db_fault d of Some m \<Rightarrow> Inl (OtherError m)
      | None \<Rightarrow>
          let doc = new_Course inp; es = validate doc in
          if es \<noteq> [] then Inl (ValidationError es)
          else
            let c = to_course (mk_oid (next_oid d)) now (pre_save now doc) in
            if course_id c \<in> set (map course_id (docs d)) then Inl DuplicateKey
            else Inr (c, d\<lparr>docs := docs d @ [c], next_oid := Suc (next_oid d)\<rparr>))"

text \<open>\<^verbatim>\<open>Course.find({ status: 'published' }).limit(1000)\<close>.\<close>

definition find_published :: "db \<Rightarrow> course list promise" where
  "find_published d =
     (case db_fault d of Some m \<Rightarrow> Rejected m
      | None \<Rightarrow> Resolved (take 1000 (filter (\<lambda>c. status c = ''published'') (docs d))))"

text \<open>
  The cast of a string to an ObjectId, which Mongoose applies to the value of \<^verbatim>\<open>_id\<close> in
  a filter: 24 hexadecimal digits name the ObjectId they spell (printed in lower case),
  12 characters name the ObjectId that has them as its bytes, and any other string
  cannot be cast.
\<close>

definition hex_of_char :: "char \<Rightarrow> string" where
  "hex_of_char c = [hex_chars ! (of_char c div 16), hex_chars ! (of_char c mod 16)]"

definition cast_ObjectId :: "string \<Rightarrow> string option" where
  "cast_ObjectId i =
     (if length i = 24 \<and> list_all is_hex i then Some (toLowerCase i)
      else if length i = 12 then Some (concat (map hex_of_char i))
      else None)"

text \<open>
  \<^verbatim>\<open>Course.findOne({ $or: [{ _id: id }, { course_id: id.toUpperCase() }] }).lean()\<close>.
  The filter is cast before the query is sent: when \<open>id\<close> cannot be cast to an ObjectId
  the query is rejected with a CastError, whatever the second alternative would find.
\<close>

definition findOne_by_id :: "db \<Rightarrow> string \<Rightarrow> course option promise" where
  "findOne_by_id d i =
     (case cast_ObjectId i of
        None \<Rightarrow> Rejected ''Cast to ObjectId failed''
      | Some objId \<Rightarrow>
          (case db_fault d of Some m \<Rightarrow> Rejected m
           | None \<Rightarrow> Resolved (find (\<lambda>c. oid c = objId \<or> course_id c = toUpperCase i) (docs d))))"

text \<open>
  The filter object of the list endpoint. The two regular-expression filters hold the
  pattern text; all are matched by the database.
\<close>

record list_query =
  q_status :: string
  q_category :: "string option"
  q_instructor :: "string option"
  q_level :: "string option"
  q_search :: "string option"

record overview =
  totalCourses :: nat
  totalEnrollments :: jsnum
  averageRating :: jsnum
  averageDuration :: jsnum
  averagePrice :: jsnum

record category_row =
  row_id :: string
  row_count :: nat
  row_totalEnrollments :: jsnum
  row_averageRating :: jsnum

section \<open>The search index (\<^verbatim>\<open>ElasticsearchClient\<close>)\<close>

record es_doc =
  d_course_id :: string
  d_title :: string
  d_description :: string
  d_category :: string
  d_instructor :: string
  d_duration :: jsnum
  d_created_at :: nat
  d_updated_at :: nat

text \<open>
  \<open>es_isConnected\<close> is the field \<^verbatim>\<open>isConnected\<close>, \<open>es_has_client\<close> says that
  \<^verbatim>\<open>this.client\<close> is not null, \<open>es_up\<close> that the node answers requests (a request to a
  node that is down throws), \<open>index_docs\<close> is the index \<^verbatim>\<open>courses\<close> by document id.
\<close>

record elastic =
  es_isConnected :: bool
  es_has_client :: bool
  es_up :: bool
  index_docs :: "string \<rightharpoonup> es_doc"

record search_body =
  multi_match :: "string option"
  filter_category :: "string option"
  filter_instructor :: "string option"
  from_offset :: jsnum
  body_size :: jsnum

record search_hit =
  hit_source :: es_doc
  hit_id :: string
  hit_score :: jsnum

text \<open>
  What the two engines compute is outside the repository: the evaluation of a list
  query (regular expressions, sort, skip, limit), of the two aggregations, and of a
  search body (relevance scoring). They are parameters of the model.
\<close>

record engines =
  run_find :: "course list \<Rightarrow> list_query \<Rightarrow> string \<Rightarrow> int \<Rightarrow> jsnum \<Rightarrow> jsnum \<Rightarrow> course list promise"
  run_count :: "course list \<Rightarrow> list_query \<Rightarrow> nat promise"
  run_overview :: "course list \<Rightarrow> overview list promise"
  run_categories :: "course list \<Rightarrow> category_row list promise"
  run_search :: "(string \<rightharpoonup> es_doc) \<Rightarrow> search_body \<Rightarrow> (search_hit list \<times> nat) promise"

definition isHealthy :: "elastic \<Rightarrow> bool" where
  "isHealthy es = es_isConnected es"

definition index_body :: "course \<Rightarrow> es_doc" where
  "index_body c =
     \<lparr> d_course_id = course_id c, d_title = title c, d_description = description c,
       d_category = category c, d_instructor = instructor c, d_duration = duration c,
       d_created_at = created_at c, d_updated_at = updated_at c \<rparr>"

definition indexCourse :: "elastic \<Rightarrow> course \<Rightarrow> bool \<times> elastic" where
  "indexCourse es c =
     (if \<not> es_isConnected es \<or> \<not> es_has_client es then (False, es)
      else if es_up es then (True, es\<lparr>index_docs := (index_docs es)(oid c \<mapsto> index_body c)\<rparr>)
      else (False, es))"

definition truthy :: "string option \<Rightarrow> bool" where
  "truthy v = (case v of None \<Rightarrow> False | Some s \<Rightarrow> s \<noteq> [])"

definition if_truthy :: "string option \<Rightarrow> string option" where
  "if_truthy v = (if truthy v then v else None)"

definition searchCourses ::
  "engines \<Rightarrow> elastic \<Rightarrow> string \<Rightarrow> string option \<Rightarrow> string option \<Rightarrow> jsnum \<Rightarrow> jsnum
     \<Rightarrow> search_hit list \<times> nat" where
  "searchCourses eng es query cat ins page sz =
     (if \<not> es_isConnected es \<or> \<not> es_has_client es then ([], 0)
      else if \<not> es_up es then ([], 0)
      else
        (case run_search eng (index_docs es)
                \<lparr> multi_match = (if query \<noteq> [] then Some query else None),
                  filter_category = if_truthy cat,
                  filter_instructor = if_truthy ins,
                  from_offset = js_mul (js_sub1 page) sz,
                  body_size = sz \<rparr> of
           Rejected _ \<Rightarrow> ([], 0)
         | Resolved r \<Rightarrow> r))"

text \<open>The resynchronisation sweep \<^verbatim>\<open>syncCoursesToElasticsearch\<close>.\<close>

definition syncCoursesToElasticsearch :: "db \<Rightarrow> elastic \<Rightarrow> elastic" where
  "syncCoursesToElasticsearch d es =
     (if \<not> isHealthy es then es
      else (case find_published d of
              Rejected _ \<Rightarrow> es
            | Resolved cs \<Rightarrow> foldl (\<lambda>e c. snd (indexCourse e c)) es cs))"

section \<open>The cache (\<^verbatim>\<open>RedisClient\<close>)\<close>

record pagination =
  current_page :: jsnum
  total_pages :: jsnum
  total_items :: nat
  items_per_page :: jsnum
  has_next :: bool
  has_prev :: bool

record category_stat =
  cs_category :: string
  courseCount :: nat
  cs_totalEnrollments :: jsnum
  cs_averageRating :: jsnum

text \<open>
  The objects the handlers build, cache and send. \<open>CourseWrap v\<close> is \<^verbatim>\<open>{ course: v }\<close>.
  \<^verbatim>\<open>JSON.stringify\<close> followed by \<^verbatim>\<open>JSON.parse\<close> is taken to give the object back, and
  every such object is truthy.
\<close>

datatype payload =
    ListPayload "course list" pagination
  | SearchPayload "search_hit list" pagination string
  | CoursePayload course
  | CourseWrap payload
  | StatsPayload overview "category_stat list"
  | UploadPayload nat nat nat "course list"

text \<open>
  \<open>redis_up\<close> says that the server answers commands (a command to a server that is down
  throws). An entry holds its value and the time, in milliseconds, at which it expires.
\<close>

record redis =
  redis_isConnected :: bool
  redis_up :: bool
  entries :: "string \<rightharpoonup> payload \<times> nat"

definition redis_get :: "nat \<Rightarrow> redis \<Rightarrow> string \<Rightarrow> payload option" where
  "redis_get now r key =
     (if \<not> redis_isConnected r then None
      else if \<not> redis_up r then None
      else (case entries r key of
              None \<Rightarrow> None
            | Some (v, expires) \<Rightarrow> if now < expires then Some v else None))"

definition redis_set :: "nat \<Rightarrow> redis \<Rightarrow> string \<Rightarrow> payload \<Rightarrow> nat \<Rightarrow> bool \<times> redis" where
  "redis_set now r key v expiry =
     (if \<not> redis_isConnected r then (False, r)
      else if \<not> redis_up r then (False, r)
      else (True, r\<lparr>entries := (entries r)(key \<mapsto> (v, now + 1000 * expiry))\<rparr>))"

text \<open>\<^verbatim>\<open>DEL key\<close> removes the entry whose key is exactly \<open>key\<close>.\<close>

definition redis_del :: "redis \<Rightarrow> string \<Rightarrow> bool \<times> redis" where
  "redis_del r key =
     (if \<not> redis_isConnected r then (False, r)
      else if \<not> redis_up r then (False, r)
      else (True, r\<lparr>entries := (entries r)(key := None)\<rparr>))"


section \<open>The course service\<close>

text \<open>The three module-level clients the handlers share.\<close>

record world =
  mongo :: db
  elasticsearch :: elastic
  redis_client :: redis

datatype error_list = Messages "string list" | FieldErrors "(string \<times> string) list"

text \<open>
  A response: the HTTP status and the keys of the JSON body. \<open>None\<close> is a key the body
  does not have. The key \<^verbatim>\<open>error\<close> that the upload's status 500 body has in development
  mode is left out.
\<close>

record response =
  status_code :: nat
  success :: bool
  message :: string
  data :: "payload option"
  cached :: "bool option"
  errors :: "error_list option"

definition respond :: "nat \<Rightarrow> bool \<Rightarrow> string \<Rightarrow> response" where
  "respond code ok msg =
     \<lparr> status_code = code, success = ok, message = msg, data = None, cached = None, errors = None \<rparr>"

definition getCacheKey :: "string \<Rightarrow> string list \<Rightarrow> string" where
  "getCacheKey prefix params = ''courses:'' @ prefix @ '':'' @ js_join '':'' params"

text \<open>\<^verbatim>\<open>v || d\<close> on an optional string, and a destructuring default \<^verbatim>\<open>v = d\<close>.\<close>

definition or_str :: "string option \<Rightarrow> string \<Rightarrow> string" where
  "or_str v d = (case v of None \<Rightarrow> d | Some s \<Rightarrow> if s = [] then d else s)"

definition default_str :: "string option \<Rightarrow> string \<Rightarrow> string" where
  "default_str v d = (case v of None \<Rightarrow> d | Some s \<Rightarrow> s)"

definition default_num :: "string option \<Rightarrow> rat \<Rightarrow> qparam" where
  "default_num v d = (case v of None \<Rightarrow> QNum (Fin d) | Some s \<Rightarrow> QStr s)"

definition mk_pagination :: "jsnum \<Rightarrow> jsnum \<Rightarrow> nat \<Rightarrow> pagination" where
  "mk_pagination pageNum limitNum total_count =
     \<lparr> current_page = pageNum,
       total_pages = js_ceil (js_div (Fin (of_nat total_count)) limitNum),
       total_items = total_count,
       items_per_page = limitNum,
       has_next = js_less pageNum (js_ceil (js_div (Fin (of_nat total_count)) limitNum)),
       has_prev = js_less (Fin 1) pageNum \<rparr>"

subsection \<open>\<^verbatim>\<open>GET /api/courses\<close>\<close>

record list_request =
  lr_page :: "string option"
  lr_limit :: "string option"
  lr_category :: "string option"
  lr_instructor :: "string option"
  lr_level :: "string option"
  lr_status :: "string option"
  lr_sort :: "string option"
  lr_order :: "string option"
  lr_search :: "string option"

definition list_cache_key :: "list_request \<Rightarrow> string" where
  "list_cache_key rq =
     getCacheKey ''list''
       [num_to_string (parseInt_q (default_num (lr_page rq) 1)),
        num_to_string (parseInt_q (default_num (lr_limit rq) 10)),
        or_str (lr_category rq) ''all'', or_str (lr_instructor rq) ''all'',
        or_str (lr_level rq) ''all'', default_str (lr_status rq) ''published'',
        default_str (lr_sort rq) ''created_at'', default_str (lr_order rq) ''desc'',
        or_str (lr_search rq) ''none'']"

definition list_filter :: "list_request \<Rightarrow> list_query" where
  "list_filter rq =
     \<lparr> q_status = default_str (lr_status rq) ''published'',
       q_category = if_truthy (lr_category rq),
       q_instructor = if_truthy (lr_instructor rq),
       q_level = if_truthy (lr_level rq),
       q_search = if_truthy (lr_search rq) \<rparr>"

text \<open>The two queries run under \<^verbatim>\<open>Promise.all\<close>: the first rejection rejects the pair.\<close>

definition list_from_store :: "engines \<Rightarrow> db \<Rightarrow> list_request \<Rightarrow> payload promise" where
  "list_from_store eng d rq =
     (let pageNum = parseInt_q (default_num (lr_page rq) 1);
          limitNum = parseInt_q (default_num (lr_limit rq) 10);
          skip = js_mul (js_sub1 pageNum) limitNum;
          sortOrder = (if default_str (lr_order rq) ''desc'' = ''desc'' then - 1 else 1)
      in case db_fault d of Some m \<Rightarrow> Rejected m
         | None \<Rightarrow>
            (case run_find eng (docs d) (list_filter rq) (default_str (lr_sort rq) ''created_at'')
                    sortOrder skip limitNum of
               Rejected m \<Rightarrow> Rejected m
             | Resolved courses \<Rightarrow>
                (case run_count eng (docs d) (list_filter rq) of
                   Rejected m \<Rightarrow> Rejected m
                 | Resolved total_count \<Rightarrow>
                     Resolved (ListPayload courses (mk_pagination pageNum limitNum total_count)))))"

definition get_courses :: "engines \<Rightarrow> nat \<Rightarrow> list_request \<Rightarrow> world \<Rightarrow> response \<times> world" where
  "get_courses eng now rq w =
     (case redis_get now (redis_client w) (list_cache_key rq) of
        Some cachedResult \<Rightarrow>
          ((respond 200 True ''Courses retrieved from cache'')
             \<lparr>data := Some cachedResult, cached := Some True\<rparr>, w)
      | None \<Rightarrow>
          (case list_from_store eng (mongo w) rq of
             Rejected _ \<Rightarrow> (respond 500 False ''Internal server error while retrieving courses'', w)
           | Resolved result \<Rightarrow>
               ((respond 200 True ''Courses retrieved successfully'')\<lparr>data := Some result\<rparr>,
                w\<lparr>redis_client := snd (redis_set now (redis_client w) (list_cache_key rq) result 300)\<rparr>)))"

subsection \<open>\<^verbatim>\<open>GET /api/courses/search\<close>\<close>

record search_request =
  sr_q :: "string option"
  sr_category :: "string option"
  sr_instructor :: "string option"
  sr_page :: "string option"
  sr_size :: "string option"

definition search_cache_key :: "search_request \<Rightarrow> string" where
  "search_cache_key rq =
     getCacheKey ''search''
       [opt_string (sr_q rq), or_str (sr_category rq) ''all'', or_str (sr_instructor rq) ''all'',
        qparam_to_string (default_num (sr_page rq) 1),
        qparam_to_string (default_num (sr_size rq) 10)]"

definition search_from_index :: "engines \<Rightarrow> elastic \<Rightarrow> search_request \<Rightarrow> payload" where
  "search_from_index eng es rq =
     (let page = parseInt_q (default_num (sr_page rq) 1);
          sz = parseInt_q (default_num (sr_size rq) 10);
          (hits, total_count) = searchCourses eng es (js_trim (opt_string (sr_q rq)))
                            (sr_category rq) (sr_instructor rq) page sz
      in SearchPayload hits (mk_pagination page sz total_count) (opt_string (sr_q rq)))"

definition get_courses_search ::
  "engines \<Rightarrow> nat \<Rightarrow> search_request \<Rightarrow> world \<Rightarrow> response \<times> world" where
  "get_courses_search eng now rq w =
     (if \<not> truthy (sr_q rq) \<or> js_trim (opt_string (sr_q rq)) = []
      then (respond 400 False ''Search query is required'', w)
      else
        (case redis_get now (redis_client w) (search_cache_key rq) of
           Some cachedResult \<Rightarrow>
             ((respond 200 True ''Search results retrieved from cache'')
                \<lparr>data := Some cachedResult, cached := Some True\<rparr>, w)
         | None \<Rightarrow>
             (let result = search_from_index eng (elasticsearch w) rq
              in ((respond 200 True ''Courses searched successfully'')\<lparr>data := Some result\<rparr>,
                  w\<lparr>redis_client :=
                      snd (redis_set now (redis_client w) (search_cache_key rq) result 120)\<rparr>))))"

subsection \<open>\<^verbatim>\<open>GET /api/courses/:id\<close>\<close>

definition single_cache_key :: "string \<Rightarrow> string" where
  "single_cache_key i = getCacheKey ''single'' [i]"

definition get_course_by_id :: "nat \<Rightarrow> string \<Rightarrow> world \<Rightarrow> response \<times> world" where
  "get_course_by_id now i w =
     (case redis_get now (redis_client w) (single_cache_key i) of
        Some cachedCourse \<Rightarrow>
          ((respond 200 True ''Course retrieved from cache'')
             \<lparr>data := Some (CourseWrap cachedCourse), cached := Some True\<rparr>, w)
      | None \<Rightarrow>
          (case findOne_by_id (mongo w) i of
             Rejected _ \<Rightarrow> (respond 500 False ''Internal server error while retrieving course'', w)
           | Resolved None \<Rightarrow> (respond 404 False ''Course not found'', w)
           | Resolved (Some c) \<Rightarrow>
               ((respond 200 True ''Course retrieved successfully'')
                  \<lparr>data := Some (CourseWrap (CoursePayload c))\<rparr>,
                w\<lparr>redis_client :=
                    snd (redis_set now (redis_client w) (single_cache_key i) (CoursePayload c) 600)\<rparr>)))"

subsection \<open>\<^verbatim>\<open>GET /api/courses/stats/overview\<close>\<close>

definition stats_cache_key :: string where
  "stats_cache_key = getCacheKey ''stats'' [''overview'']"

definition empty_overview :: overview where
  "empty_overview =
     \<lparr> totalCourses = 0, totalEnrollments = Fin 0, averageRating = Fin 0,
       averageDuration = Fin 0, averagePrice = Fin 0 \<rparr>"

definition category_stat_of :: "category_row \<Rightarrow> category_stat" where
  "category_stat_of cat =
     \<lparr> cs_category = row_id cat,
       courseCount = row_count cat,
       cs_totalEnrollments = row_totalEnrollments cat,
       cs_averageRating = js_div (js_round (js_mul (row_averageRating cat) (Fin 100))) (Fin 100) \<rparr>"

definition stats_from_store :: "engines \<Rightarrow> db \<Rightarrow> payload promise" where
  "stats_from_store eng d =
     (case db_fault d of Some m \<Rightarrow> Rejected m
      | None \<Rightarrow>
         (case run_overview eng (docs d) of
            Rejected m \<Rightarrow> Rejected m
          | Resolved stats \<Rightarrow>
             (case run_categories eng (docs d) of
                Rejected m \<Rightarrow> Rejected m
              | Resolved categoryStats \<Rightarrow>
                  Resolved (StatsPayload (case stats of [] \<Rightarrow> empty_overview | s # _ \<Rightarrow> s)
                              (map category_stat_of categoryStats)))))"

definition get_courses_stats_overview :: "engines \<Rightarrow> nat \<Rightarrow> world \<Rightarrow> response \<times> world" where
  "get_courses_stats_overview eng now w =
     (case redis_get now (redis_client w) stats_cache_key of
        Some cachedStats \<Rightarrow>
          ((respond 200 True ''Statistics retrieved from cache'')
             \<lparr>data := Some cachedStats, cached := Some True\<rparr>, w)
      | None \<Rightarrow>
          (case stats_from_store eng (mongo w) of
             Rejected _ \<Rightarrow> (respond 500 False ''Internal server error while retrieving statistics'', w)
           | Resolved result \<Rightarrow>
               ((respond 200 True ''Statistics retrieved successfully'')\<lparr>data := Some result\<rparr>,
                w\<lparr>redis_client := snd (redis_set now (redis_client w) stats_cache_key result 900)\<rparr>)))"


subsection \<open>\<^verbatim>\<open>authenticateToken\<close>\<close>

record user =
  user_id :: string
  user_role :: string

text \<open>\<^verbatim>\<open>authHeader && authHeader.split(' ')[1]\<close>: \<open>None\<close> is \<^verbatim>\<open>undefined\<close>.\<close>

definition header_token :: "string option \<Rightarrow> string option" where
  "header_token authHeader =
     (case authHeader of None \<Rightarrow> None
      | Some h \<Rightarrow>
          if h = [] then Some []
          else (case js_split CHR '' '' h of _ # t # _ \<Rightarrow> Some t | _ \<Rightarrow> None))"

text \<open>The middleware answers 401 itself or passes the request on with \<^verbatim>\<open>req.user\<close> set.\<close>

definition authenticateToken :: "string option \<Rightarrow> response + user" where
  "authenticateToken authHeader =
     (if \<not> truthy (header_token authHeader)
      then Inl (respond 401 False ''Access denied. No token provided.'')
      else Inr \<lparr> user_id = ''demo-user'', user_role = ''admin'' \<rparr>)"

subsection \<open>\<^verbatim>\<open>POST /api/courses/upload\<close>\<close>

text \<open>A parsed CSV row: the cell of each column by its header.\<close>

type_synonym row = "string \<rightharpoonup> string"

text \<open>
  The uploaded file as \<^verbatim>\<open>csv-parser\<close> reads it: the stream fails, or it ends with the
  rows it gave.
\<close>

datatype csv_file = Unreadable string | Parsed "row list"

record upload_request =
  up_authorization :: "string option"
  up_file :: "csv_file option"

definition requiredFields :: "string list" where
  "requiredFields = [''title'', ''description'', ''category'', ''instructor'', ''duration'']"

text \<open>\<^verbatim>\<open>!row[field] || row[field].trim() === ''\<close>.\<close>

definition field_missing :: "row \<Rightarrow> string \<Rightarrow> bool" where
  "field_missing r field = (\<not> truthy (r field) \<or> js_trim (opt_string (r field)) = [])"

definition missingFields :: "row \<Rightarrow> string list" where
  "missingFields r = filter (field_missing r) requiredFields"

definition row_error :: "nat \<Rightarrow> string list \<Rightarrow> string" where
  "row_error rowNum missing =
     ''Row '' @ show_nat rowNum @ '': Missing required fields: '' @ js_join '', '' missing"

definition parseFloat_cell :: "string option \<Rightarrow> jsnum" where
  "parseFloat_cell v = (case v of None \<Rightarrow> NaN | Some s \<Rightarrow> parseFloat s)"

definition split_cell :: "string option \<Rightarrow> string list" where
  "split_cell v = (if truthy v then js_split CHR '','' (opt_string v) else [])"

definition courseData :: "row \<Rightarrow> course_input" where
  "courseData r =
     \<lparr> in_course_id = map_option (\<lambda>s. js_trim (toUpperCase s)) (r ''course_id''),
       in_title = map_option js_trim (r ''title''),
       in_description = map_option js_trim (r ''description''),
       in_category =
         (if map_option js_trim (r ''category'') \<in> Some ` set validCategories
          then map_option js_trim (r ''category'') else Some ''Other''),
       in_instructor = map_option js_trim (r ''instructor''),
       in_duration = Some (or_zero (parseFloat_cell (r ''duration''))),
       in_level =
         (if or_str (map_option js_trim (r ''level'')) ''Beginner'' \<in> set validLevels
          then Some (or_str (map_option js_trim (r ''level'')) ''Beginner'') else Some ''Beginner''),
       in_price = Some (or_zero (parseFloat_cell (r ''price''))),
       in_enrollments = None,
       in_rating = Some (js_min (or_zero (parseFloat_cell (r ''rating''))) (Fin 5)),
       in_tags = map (\<lambda>t. toLowerCase (js_trim t)) (split_cell (r ''tags'')),
       in_prerequisites = map js_trim (split_cell (r ''prerequisites'')),
       in_learning_outcomes = map js_trim (split_cell (r ''learning_outcomes'')),
       in_thumbnail_url = Some (or_str (map_option js_trim (r ''thumbnail_url'')) default_thumbnail),
       in_status = None,
       in_created_by = None \<rparr>"

text \<open>
  The validation loop over \<^verbatim>\<open>results\<close>, from row index \<open>i\<close> on: the messages pushed to
  \<^verbatim>\<open>errors\<close> and the objects pushed to \<^verbatim>\<open>coursesToSave\<close>, in row order.
\<close>

fun prepare_rows :: "nat \<Rightarrow> row list \<Rightarrow> string list \<times> course_input list" where
  "prepare_rows i [] = ([], [])"
| "prepare_rows i (r # rs) =
     (let (errs, coursesToSave) = prepare_rows (Suc i) rs
      in if missingFields r \<noteq> [] then (row_error (i + 1) (missingFields r) # errs, coursesToSave)
         else (errs, courseData r # coursesToSave))"

definition save_error_text :: "course_input \<Rightarrow> save_error \<Rightarrow> string" where
  "save_error_text cd e =
     (if e = DuplicateKey
      then ''Course with ID '' @ (case in_course_id cd of None \<Rightarrow> ''undefined'' | Some s \<Rightarrow> s)
           @ '' already exists''
      else ''Error saving course \"'' @ (case in_title cd of None \<Rightarrow> ''undefined'' | Some s \<Rightarrow> s)
           @ ''\": '' @ error_message e)"

text \<open>
  The save loop over \<^verbatim>\<open>coursesToSave\<close>: the courses pushed to \<^verbatim>\<open>savedCourses\<close>, the
  messages pushed to \<^verbatim>\<open>saveErrors\<close>, and the store and the index afterwards. One clock
  value stands for the whole request.
\<close>

fun save_courses ::
  "nat \<Rightarrow> db \<Rightarrow> elastic \<Rightarrow> course_input list \<Rightarrow> course list \<times> string list \<times> db \<times> elastic" where
  "save_courses now d es [] = ([], [], d, es)"
| "save_courses now d es (cd # cds) =
     (case course_save now d cd of
        Inr (savedCourse, d') \<Rightarrow>
          (let es' = (if isHealthy es then snd (indexCourse es savedCourse) else es);
               (savedCourses, saveErrors, d'', es'') = save_courses now d' es' cds
           in (savedCourse # savedCourses, saveErrors, d'', es''))
      | Inl e \<Rightarrow>
          (let (savedCourses, saveErrors, d'', es'') = save_courses now d es cds
           in (savedCourses, save_error_text cd e # saveErrors, d'', es'')))"

text \<open>
  The handler. The route is registered with the file-upload middleware only; the clean-up
  of the temporary file is not modelled.
\<close>

definition post_courses_upload :: "nat \<Rightarrow> upload_request \<Rightarrow> world \<Rightarrow> response \<times> world" where
  "post_courses_upload now rq w =
     (case up_file rq of
        None \<Rightarrow> (respond 400 False ''No CSV file uploaded'', w)
      | Some (Unreadable _) \<Rightarrow> (respond 500 False ''Internal server error during CSV upload'', w)
      | Some (Parsed results) \<Rightarrow>
          if results = [] then (respond 400 False ''CSV file is empty or invalid'', w)
          else
            (let (errs, coursesToSave) = prepare_rows 0 results in
             if coursesToSave = []
             then ((respond 400 False ''No valid courses found in CSV'')\<lparr>errors := Some (Messages errs)\<rparr>, w)
             else
               (let (savedCourses, saveErrors, d', es') =
                      save_courses now (mongo w) (elasticsearch w) coursesToSave
                in ((respond 200 True ''CSV upload processed successfully'')
                      \<lparr>data := Some (UploadPayload (length results) (length coursesToSave)
                                       (length savedCourses) savedCourses),
                       errors := Some (Messages (errs @ saveErrors))\<rparr>,
                    w\<lparr>mongo := d', elasticsearch := es'\<rparr>))))"

subsection \<open>\<^verbatim>\<open>POST /api/courses\<close>\<close>

record create_request =
  cr_authorization :: "string option"
  cr_body :: course_input

definition create_course :: "nat \<Rightarrow> user \<Rightarrow> course_input \<Rightarrow> world \<Rightarrow> response \<times> world" where
  "create_course now u body w =
     (case course_save now (mongo w) (body\<lparr>in_created_by := Some (user_id u)\<rparr>) of
        Inr (savedCourse, d') \<Rightarrow>
          ((respond 201 True ''Course created successfully'')
             \<lparr>data := Some (CourseWrap (CoursePayload savedCourse))\<rparr>,
           w\<lparr>mongo := d',
             elasticsearch :=
               (if isHealthy (elasticsearch w) then snd (indexCourse (elasticsearch w) savedCourse)
                else elasticsearch w),
             redis_client := snd (redis_del (redis_client w) (getCacheKey ''list'' [''*'']))\<rparr>)
      | Inl (ValidationError es) \<Rightarrow>
          ((respond 400 False ''Validation error'')\<lparr>errors := Some (FieldErrors es)\<rparr>, w)
      | Inl DuplicateKey \<Rightarrow> (respond 409 False ''Course with this ID already exists'', w)
      | Inl (OtherError _) \<Rightarrow> (respond 500 False ''Internal server error while creating course'', w))"

definition post_courses :: "nat \<Rightarrow> create_request \<Rightarrow> world \<Rightarrow> response \<times> world" where
  "post_courses now rq w =
     (case authenticateToken (cr_authorization rq) of
        Inl denied \<Rightarrow> (denied, w)
      | Inr u \<Rightarrow> create_course now u (cr_body rq) w)"

section \<open>Reference notions and sample data\<close>

text \<open>
  The number of saves the store rejects when the courses are submitted one after the
  other, each against the store the earlier ones left.
\<close>

fun rejected_saves :: "nat \<Rightarrow> db \<Rightarrow> course_input list \<Rightarrow> nat" where
  "rejected_saves now d [] = 0"
| "rejected_saves now d (cd # cds) =
     (case course_save now d cd of
        Inr (_, d') \<Rightarrow> rejected_saves now d' cds
      | Inl _ \<Rightarrow> Suc (rejected_saves now d cds))"

text \<open>A report: a success-shaped response whose data is the upload summary.\<close>

definition is_report :: "response \<Rightarrow> bool" where
  "is_report r = (success r \<and> (case data r of Some (UploadPayload _ _ _ _) \<Rightarrow> True | _ \<Rightarrow> False))"

text \<open>An empty store, an empty index and an empty cache, all three reachable.\<close>

definition empty_world :: world where
  "empty_world =
     \<lparr> mongo = \<lparr> docs = [], next_oid = 0, db_fault = None \<rparr>,
       elasticsearch =
         \<lparr> es_isConnected = True, es_has_client = True, es_up = True, index_docs = Map.empty \<rparr>,
       redis_client = \<lparr> redis_isConnected = True, redis_up = True, entries = Map.empty \<rparr> \<rparr>"

text \<open>A CSV row with the given \<^verbatim>\<open>course_id\<close> and \<^verbatim>\<open>title\<close> cells.\<close>

definition sample_row :: "string \<Rightarrow> string \<Rightarrow> row" where
  "sample_row cid t =
     map_of [(''course_id'', cid), (''title'', t),
             (''description'', ''An introduction to programming''),
             (''category'', ''Programming''), (''instructor'', ''Ada Lovelace''),
             (''duration'', ''12'')]"

definition upload_of :: "row list \<Rightarrow> upload_request" where
  "upload_of rows = \<lparr> up_authorization = None, up_file = Some (Parsed rows) \<rparr>"

text \<open>
  A stand-in for the two engines: the list query honours the status filter only, the
  aggregations and the search find nothing.
\<close>

definition plain_engines :: engines where
  "plain_engines =
     \<lparr> run_find = (\<lambda>ds q srt ord skip lim. Resolved (filter (\<lambda>c. status c = q_status q) ds)),
       run_count = (\<lambda>ds q. Resolved (length (filter (\<lambda>c. status c = q_status q) ds))),
       run_overview = (\<lambda>ds. Resolved []),
       run_categories = (\<lambda>ds. Resolved []),
       run_search = (\<lambda>ix b. Resolved ([], 0)) \<rparr>"

text \<open>The list request with no parameter at all.\<close>

definition plain_list :: list_request where
  "plain_list =
     \<lparr> lr_page = None, lr_limit = None, lr_category = None, lr_instructor = None,
       lr_level = None, lr_status = None, lr_sort = None, lr_order = None, lr_search = None \<rparr>"

text \<open>
  A scenario: the course list is read at time 1000, which caches it; at time 2000 a
  one-row file is uploaded, or the same course is created with a token.
\<close>

definition listed_world :: world where
  "listed_world = snd (get_courses plain_engines 1000 plain_list empty_world)"

definition uploaded_world :: world where
  "uploaded_world =
     snd (post_courses_upload 2000 (upload_of [sample_row ''cs101'' ''Intro to CS'']) listed_world)"

definition created_world :: world where
  "created_world =
     snd (post_courses 2000
            \<lparr> cr_authorization = Some ''Bearer abc'',
              cr_body = courseData (sample_row ''cs101'' ''Intro to CS'') \<rparr>
            listed_world)"

text \<open>A search request for \<^verbatim>\<open>q\<close> with the other parameters left out.\<close>

definition search_for :: "string \<Rightarrow> search_request" where
  "search_for q =
     \<lparr> sr_q = Some q, sr_category = None, sr_instructor = None, sr_page = None, sr_size = None \<rparr>"

text \<open>The world of \<open>uploaded_world\<close> with the search client disconnected.\<close>

definition index_down_world :: world where
  "index_down_world =
     uploaded_world\<lparr>elasticsearch := (elasticsearch uploaded_world)\<lparr>es_isConnected := False\<rparr>\<rparr>"

text \<open>
  A cache that still holds, under the single-record key of the identifier
  \<^verbatim>\<open>0123456789ABCDEF01234567\<close>, a course that is no longer in the store; and a create
  request for a course with that \<^verbatim>\<open>course_id\<close>.
\<close>

definition old_course :: course where
  "old_course =
     \<lparr> oid = ''0000000000000000000000ff'', course_id = ''0123456789ABCDEF01234567'',
       title = ''Old title'', description = ''A course that was removed'', category = ''Other'',
       instructor = ''Grace Hopper'', duration = Fin 3, level = ''Beginner'', price = Fin 0,
       enrollments = Fin 0, rating = Fin 0, tags = [], prerequisites = [],
       learning_outcomes = [], thumbnail_url = default_thumbnail, status = ''published'',
       created_by = ''admin'', created_at = 1, updated_at = 1 \<rparr>"

definition stale_single_world :: world where
  "stale_single_world =
     empty_world\<lparr>redis_client := (redis_client empty_world)\<lparr>entries :=
       [''courses:single:0123456789ABCDEF01234567'' \<mapsto> (CoursePayload old_course, 500000)]\<rparr>\<rparr>"

definition recreate_request :: create_request where
  "recreate_request =
     \<lparr> cr_authorization = Some ''Bearer abc'',
       cr_body = courseData (sample_row ''0123456789abcdef01234567'' ''Intro to CS'') \<rparr>"

definition create_cs101 :: create_request where
  "create_cs101 =
     \<lparr> cr_authorization = Some ''Bearer abc'',
       cr_body = courseData (sample_row ''cs101'' ''Intro to CS'') \<rparr>"



text \<open>A store of 1001 published courses, numbered from 0.\<close>

definition numbered_course :: "nat \<Rightarrow> course" where
  "numbered_course n =
     \<lparr> oid = mk_oid n, course_id = ''C'' @ show_nat n, title = ''Course'',
       description = ''One course of many'', category = ''Other'',
       instructor = ''Ada Lovelace'', duration = Fin 1, level = ''Beginner'', price = Fin 0,
       enrollments = Fin 0, rating = Fin 0, tags = [], prerequisites = [],
       learning_outcomes = [], thumbnail_url = default_thumbnail, status = ''published'',
       created_by = ''admin'', created_at = 1, updated_at = 1 \<rparr>"

definition many_courses :: db where
  "many_courses = \<lparr> docs = map numbered_course [0 ..< 1001], next_oid = 1001, db_fault = None \<rparr>"

text \<open>The sweep as the specification words it: every published record is upserted.\<close>

definition resync_all_published :: "db \<Rightarrow> elastic \<Rightarrow> elastic" where
  "resync_all_published d es =
     (if \<not> isHealthy es \<or> db_fault d \<noteq> None then es
      else foldl (\<lambda>e c. snd (indexCourse e c)) es (filter (\<lambda>c. status c = ''published'') (docs d)))"

section \<open>Properties\<close>

subsection \<open>The upload loops\<close>

lemma prepare_rows_errors:
  "fst (prepare_rows i rs) =
     map (\<lambda>(j, r). row_error (j + 1) (missingFields r))
       (filter (\<lambda>(j, r). missingFields r \<noteq> []) (enumerate i rs))"
  by (induction rs arbitrary: i) (simp_all add: Let_def case_prod_beta)

lemma prepare_rows_valid:
  "snd (prepare_rows i rs) = map courseData (filter (\<lambda>r. missingFields r = []) rs)"
  by (induction rs arbitrary: i) (simp_all add: Let_def case_prod_beta)

lemma prepare_rows_errors_length:
  "length (fst (prepare_rows i rs)) = length (filter (\<lambda>r. missingFields r \<noteq> []) rs)"
  by (induction rs arbitrary: i) (simp_all add: Let_def case_prod_beta)

lemma valid_rows_length:
  "length (filter (\<lambda>r. missingFields r = []) rows) =
     length rows - length (filter (\<lambda>r. missingFields r \<noteq> []) rows)"
  using sum_length_filter_compl[of "\<lambda>r. missingFields r \<noteq> []" rows] by simp

lemma all_invalid_enumerate:
  "\<forall>r\<in>set rows. missingFields r \<noteq> [] \<Longrightarrow>
     filter (\<lambda>(j, r). missingFields r \<noteq> []) (enumerate i rows) = enumerate i rows"
  by (rule filter_True) (auto simp: in_set_enumerate_eq)

subsection \<open>C3: an upload in which every row fails validation\<close>

text \<open>
  C3, as amended. An upload whose rows all fail the required-field check is rejected with
  status 400, success false and the message "No valid courses found in CSV"; the body
  carries the row errors, one per row and numbered from 1, and no report; the store, the
  index and the cache are untouched. An upload with no rows at all is rejected with status
  400 and carries neither errors nor a report.
\<close>

theorem upload_all_invalid_rejected:
  assumes "up_file rq = Some (Parsed rows)"
    and "\<forall>r\<in>set rows. missingFields r \<noteq> []"
  shows "post_courses_upload now rq w =
     (if rows = [] then (respond 400 False ''CSV file is empty or invalid'', w)
      else ((respond 400 False ''No valid courses found in CSV'')
              \<lparr>errors := Some (Messages (map (\<lambda>(j, r). row_error (j + 1) (missingFields r))
                                              (enumerate 0 rows)))\<rparr>, w))"
proof -
  have none: "filter (\<lambda>r. missingFields r = []) rows = []"
    using assms(2) by (auto simp: filter_empty_conv)
  obtain errs cs where p: "prepare_rows 0 rows = (errs, cs)"
    by (cases "prepare_rows 0 rows")
  have "cs = []"
    using prepare_rows_valid[of 0 rows] p none by simp
  moreover have "errs = map (\<lambda>(j, r). row_error (j + 1) (missingFields r)) (enumerate 0 rows)"
    using prepare_rows_errors[of 0 rows] p all_invalid_enumerate[OF assms(2), of 0] by simp
  ultimately show ?thesis
    using assms(1) p by (simp add: post_courses_upload_def)
qed

theorem upload_all_invalid_rejected_witness:
  "post_courses_upload 1000 (upload_of [sample_row ''cs101'' '' '', sample_row ''cs102'' []]) empty_world =
     ((respond 400 False ''No valid courses found in CSV'')
        \<lparr>errors := Some (Messages [''Row 1: Missing required fields: title'',
                                       ''Row 2: Missing required fields: title''])\<rparr>, empty_world)
   \<and> post_courses_upload 1000 (upload_of []) empty_world =
        (respond 400 False ''CSV file is empty or invalid'', empty_world)"
proof -
  have m1: "missingFields (sample_row ''cs101'' '' '') = [''title'']"
    by code_simp
  have m2: "missingFields (sample_row ''cs102'' []) = [''title'']"
    by code_simp
  have e: "row_error (Suc 0) [''title''] = ''Row 1: Missing required fields: title''"
          "row_error (Suc (Suc 0)) [''title''] = ''Row 2: Missing required fields: title''"
    by code_simp+
  have "post_courses_upload 1000 (upload_of [sample_row ''cs101'' '' '', sample_row ''cs102'' []]) empty_world =
     ((respond 400 False ''No valid courses found in CSV'')
        \<lparr>errors := Some (Messages [''Row 1: Missing required fields: title'',
                                       ''Row 2: Missing required fields: title''])\<rparr>, empty_world)"
    using upload_all_invalid_rejected[of "upload_of [sample_row ''cs101'' '' '', sample_row ''cs102'' []]"
        "[sample_row ''cs101'' '' '', sample_row ''cs102'' []]" 1000 empty_world]
    by (simp add: upload_of_def m1 m2 e enumerate_eq_zip upt_rec)
  moreover have "post_courses_upload 1000 (upload_of []) empty_world =
        (respond 400 False ''CSV file is empty or invalid'', empty_world)"
    using upload_all_invalid_rejected[of "upload_of []" "[]" 1000 empty_world]
    by (simp add: upload_of_def)
  ultimately show ?thesis by simp
qed

text \<open>
  The claim as stated fails: a one-row file whose title is blank gets status 400 and no
  report, not a success-shaped report with zero saved rows.
\<close>

theorem all_invalid_upload_is_no_report:
  "missingFields (sample_row ''cs101'' '' '') = [''title'']
   \<and> \<not> is_report (fst (post_courses_upload 1000 (upload_of [sample_row ''cs101'' '' '']) empty_world))
   \<and> status_code (fst (post_courses_upload 1000 (upload_of [sample_row ''cs101'' '' '']) empty_world)) = 400"
  by code_simp

subsection \<open>C4: the counts of a report\<close>

lemma save_courses_counts:
  "save_courses now d es cds = (saved, errs, d', es') \<Longrightarrow>
     length errs = rejected_saves now d cds \<and> length saved + length errs = length cds"
proof (induction cds arbitrary: d es saved errs d' es')
  case Nil
  then show ?case by simp
next
  case (Cons cd cds)
  show ?case
  proof (cases "course_save now d cd")
    case (Inl e)
    obtain s1 e1 d1 es1 where r: "save_courses now d es cds = (s1, e1, d1, es1)"
      by (metis prod_cases4)
    with Cons.prems Inl have "saved = s1" "errs = save_error_text cd e # e1" by auto
    with Cons.IH[OF r] Inl show ?thesis by simp
  next
    case (Inr p)
    obtain c d1 where p: "p = (c, d1)" by (cases p)
    obtain s1 e1 d2 es2 where r:
      "save_courses now d1 (if isHealthy es then snd (indexCourse es c) else es) cds = (s1, e1, d2, es2)"
      by (metis prod_cases4)
    with Cons.prems Inr p have "saved = c # s1" "errs = e1" by auto
    with Cons.IH[OF r] Inr p show ?thesis by simp
  qed
qed

lemma course_save_docs:
  "course_save now d cd = Inr (c, d') \<Longrightarrow> docs d' = docs d @ [c] \<and> db_fault d' = db_fault d"
  by (auto simp: course_save_def Let_def split: option.splits if_splits)

lemma save_courses_docs:
  "save_courses now d es cds = (saved, errs, d', es') \<Longrightarrow> docs d' = docs d @ saved"
proof (induction cds arbitrary: d es saved errs d' es')
  case Nil
  then show ?case by simp
next
  case (Cons cd cds)
  show ?case
  proof (cases "course_save now d cd")
    case (Inl e)
    obtain s1 e1 d1 es1 where r: "save_courses now d es cds = (s1, e1, d1, es1)"
      by (metis prod_cases4)
    with Cons.prems Inl have "saved = s1" "d' = d1" by auto
    with Cons.IH[OF r] show ?thesis by simp
  next
    case (Inr p)
    obtain c d1 where p: "p = (c, d1)" by (cases p)
    obtain s1 e1 d2 es2 where r:
      "save_courses now d1 (if isHealthy es then snd (indexCourse es c) else es) cds = (s1, e1, d2, es2)"
      by (metis prod_cases4)
    with Cons.prems Inr p have "saved = c # s1" "d' = d2" by auto
    with Cons.IH[OF r] course_save_docs[of now d cd c d1] Inr p show ?thesis by simp
  qed
qed

text \<open>
  C4, as amended. For every parsable batch of N rows of which k fail the required-field
  check, with k < N, the upload answers with a report: \<^verbatim>\<open>total_rows\<close> is N,
  \<^verbatim>\<open>valid_courses\<close> is N - k, \<^verbatim>\<open>saved_courses\<close> is N - k - f and the error list has
  k + f entries, where f is the number of surviving rows whose save the store rejected
  (duplicate \<^verbatim>\<open>course_id\<close>, validation failure or any other error). Every saved course is
  appended to the store, whatever happened to the rows around it.
\<close>

theorem upload_report_counts:
  assumes "up_file rq = Some (Parsed rows)"
    and "k = length (filter (\<lambda>r. missingFields r \<noteq> []) rows)"
    and "k < length rows"
    and "f = rejected_saves now (mongo w) (map courseData (filter (\<lambda>r. missingFields r = []) rows))"
  shows "\<exists>saved errs.
           fst (post_courses_upload now rq w) =
             (respond 200 True ''CSV upload processed successfully'')
               \<lparr>data := Some (UploadPayload (length rows) (length rows - k) (length saved) saved),
                errors := Some (Messages errs)\<rparr>
         \<and> length saved = length rows - k - f
         \<and> length errs = k + f
         \<and> docs (mongo (snd (post_courses_upload now rq w))) = docs (mongo w) @ saved"
proof -
  obtain errs cs where p: "prepare_rows 0 rows = (errs, cs)"
    by (cases "prepare_rows 0 rows")
  have cs: "cs = map courseData (filter (\<lambda>r. missingFields r = []) rows)"
    using prepare_rows_valid[of 0 rows] p by simp
  have le: "length errs = k"
    using prepare_rows_errors_length[of 0 rows] p assms(2) by simp
  have lc: "length cs = length rows - k"
    using cs valid_rows_length[of rows] assms(2) by simp
  have ne: "rows \<noteq> []" "cs \<noteq> []"
    using assms(3) lc by auto
  obtain saved serrs d' es' where s:
    "save_courses now (mongo w) (elasticsearch w) cs = (saved, serrs, d', es')"
    by (metis prod_cases4)
  have c1: "length serrs = f" "length saved + length serrs = length cs"
    using save_courses_counts[OF s] assms(4) cs by simp_all
  have c2: "docs d' = docs (mongo w) @ saved"
    using save_courses_docs[OF s] .
  have r: "post_courses_upload now rq w =
      ((respond 200 True ''CSV upload processed successfully'')
         \<lparr>data := Some (UploadPayload (length rows) (length cs) (length saved) saved),
          errors := Some (Messages (errs @ serrs))\<rparr>,
       w\<lparr>mongo := d', elasticsearch := es'\<rparr>)"
    using assms(1) p s ne by (simp add: post_courses_upload_def)
  show ?thesis
  proof (intro exI conjI)
    show "fst (post_courses_upload now rq w) =
        (respond 200 True ''CSV upload processed successfully'')
          \<lparr>data := Some (UploadPayload (length rows) (length rows - k) (length saved) saved),
           errors := Some (Messages (errs @ serrs))\<rparr>"
      using r lc by simp
    show "length saved = length rows - k - f"
      using c1 lc by simp
    show "length (errs @ serrs) = k + f"
      using c1 le by simp
    show "docs (mongo (snd (post_courses_upload now rq w))) = docs (mongo w) @ saved"
      using r c2 by simp
  qed
qed

theorem upload_report_counts_witness:
  "\<exists>saved errs.
      fst (post_courses_upload 1000
             (upload_of [sample_row ''cs101'' ''Intro to CS'', sample_row ''cs101'' ''Intro again'',
                         sample_row ''cs102'' '' '', sample_row ''cs103'' ''Databases''])
             empty_world) =
        (respond 200 True ''CSV upload processed successfully'')
          \<lparr>data := Some (UploadPayload 4 3 (length saved) saved), errors := Some (Messages errs)\<rparr>
    \<and> length saved = 2
    \<and> length errs = 2
    \<and> map course_id saved = [''CS101'', ''CS103'']"
proof -
  let ?rows = "[sample_row ''cs101'' ''Intro to CS'', sample_row ''cs101'' ''Intro again'',
                sample_row ''cs102'' '' '', sample_row ''cs103'' ''Databases'']"
  have k: "(1::nat) = length (filter (\<lambda>r. missingFields r \<noteq> []) ?rows)"
    by code_simp
  have f: "(1::nat) =
      rejected_saves 1000 (mongo empty_world) (map courseData (filter (\<lambda>r. missingFields r = []) ?rows))"
    by code_simp
  have d: "map course_id (docs (mongo (snd (post_courses_upload 1000 (upload_of ?rows) empty_world)))) =
      [''CS101'', ''CS103'']"
    by code_simp
  from upload_report_counts[of "upload_of ?rows" ?rows 1 1 1000 empty_world, OF _ k _ f]
  obtain saved errs where
    "fst (post_courses_upload 1000 (upload_of ?rows) empty_world) =
        (respond 200 True ''CSV upload processed successfully'')
          \<lparr>data := Some (UploadPayload (length ?rows) (length ?rows - 1) (length saved) saved),
           errors := Some (Messages errs)\<rparr>"
    "length saved = length ?rows - 1 - 1" "length errs = 1 + 1"
    "docs (mongo (snd (post_courses_upload 1000 (upload_of ?rows) empty_world))) =
       docs (mongo empty_world) @ saved"
    by (auto simp: upload_of_def)
  with d show ?thesis
    by (intro exI[of _ saved] exI[of _ errs]) (simp add: empty_world_def)
qed

text \<open>
  The claim as stated fails at k = N: when both rows of a two-row file lack a title there
  is no report at all (status 400, no data), so no \<^verbatim>\<open>saved_courses\<close> count either.
\<close>

theorem no_report_when_every_row_invalid:
  "length (filter (\<lambda>r. missingFields r \<noteq> []) [sample_row ''cs101'' [], sample_row ''cs102'' '' '']) = 2
   \<and> data (fst (post_courses_upload 1000 (upload_of [sample_row ''cs101'' [], sample_row ''cs102'' '' ''])
               empty_world)) = None
   \<and> success (fst (post_courses_upload 1000 (upload_of [sample_row ''cs101'' [], sample_row ''cs102'' '' ''])
               empty_world)) = False"
  by code_simp

subsection \<open>C2: the authorization boundary\<close>

text \<open>
  C2. The create route rejects a request without a token, and so should the upload
  route; but the upload route has no authentication middleware: the same file is
  processed whatever the Authorization header is, also when there is none. Evaluated
  here: an upload without any Authorization header is answered with status 200 and its
  course is stored, while a create request without the header is answered with 401 and
  stores nothing.
\<close>

theorem upload_without_token_is_processed:
  "up_authorization (upload_of [sample_row ''cs101'' ''Intro to CS'']) = None
   \<and> status_code (fst (post_courses_upload 1000 (upload_of [sample_row ''cs101'' ''Intro to CS''])
                      empty_world)) = 200
   \<and> map course_id (docs (mongo (snd (post_courses_upload 1000
                      (upload_of [sample_row ''cs101'' ''Intro to CS'']) empty_world)))) = [''CS101'']
   \<and> status_code (fst (post_courses 1000
                      \<lparr> cr_authorization = None,
                        cr_body = courseData (sample_row ''cs101'' ''Intro to CS'') \<rparr>
                      empty_world)) = 401
   \<and> docs (mongo (snd (post_courses 1000
                      \<lparr> cr_authorization = None,
                        cr_body = courseData (sample_row ''cs101'' ''Intro to CS'') \<rparr>
                      empty_world))) = []"
  by code_simp

text \<open>The upload handler never reads the Authorization header.\<close>

lemma upload_ignores_authorization:
  "post_courses_upload now (rq\<lparr>up_authorization := a\<rparr>) w = post_courses_upload now rq w"
  by (simp add: post_courses_upload_def)

text \<open>The create route answers 401 exactly when the header carries no token.\<close>

lemma create_requires_token:
  "\<not> truthy (header_token (cr_authorization rq)) \<Longrightarrow>
     post_courses now rq w = (respond 401 False ''Access denied. No token provided.'', w)"
  by (simp add: post_courses_def authenticateToken_def)

theorem upload_without_token_is_processed_check:
  "status_code (fst (post_courses_upload 1000 (upload_of [sample_row ''cs101'' ''Intro to CS''])
                      empty_world)) = 200
   \<and> post_courses_upload 1000
        ((upload_of [sample_row ''cs101'' ''Intro to CS''])\<lparr>up_authorization := Some ''Bearer abc''\<rparr>)
        empty_world
     = post_courses_upload 1000 (upload_of [sample_row ''cs101'' ''Intro to CS'']) empty_world"
  using upload_without_token_is_processed
    upload_ignores_authorization[where now = 1000 and a = "Some ''Bearer abc''"
      and rq = "upload_of [sample_row ''cs101'' ''Intro to CS'']" and w = empty_world]
  by simp

subsection \<open>C1: invalidation after a mutation\<close>

lemma get_courses_hit:
  "redis_get now (redis_client w) (list_cache_key rq) = Some v \<Longrightarrow>
     get_courses eng now rq w =
       ((respond 200 True ''Courses retrieved from cache'')\<lparr>data := Some v, cached := Some True\<rparr>, w)"
  by (simp add: get_courses_def)

lemma upload_keeps_cache:
  "redis_client (snd (post_courses_upload now rq w)) = redis_client w"
  by (simp add: post_courses_upload_def case_prod_beta
      split: option.splits csv_file.splits)

lemma upload_store_depends:
  "mongo w = mongo w' \<Longrightarrow> elasticsearch w = elasticsearch w' \<Longrightarrow>
     mongo (snd (post_courses_upload now rq w)) = mongo (snd (post_courses_upload now rq w'))"
  by (simp add: post_courses_upload_def case_prod_beta
      split: option.splits csv_file.splits)

lemma create_store_depends:
  "mongo w = mongo w' \<Longrightarrow>
     mongo (snd (post_courses now rq w)) = mongo (snd (post_courses now rq w'))"
  by (simp add: post_courses_def create_course_def
      split: sum.splits save_error.splits prod.splits)

lemma create_cache:
  "redis_client (snd (post_courses now rq w)) = redis_client w
   \<or> redis_client (snd (post_courses now rq w)) = snd (redis_del (redis_client w) ''courses:list:*'')"
  by (simp add: post_courses_def create_course_def getCacheKey_def
      split: sum.splits save_error.splits prod.splits)

lemma plain_list_key:
  "list_cache_key plain_list = ''courses:list:1:10:all:all:all:published:created_at:desc:none''"
  by code_simp

lemma listed_world_eq:
  "listed_world =
     empty_world\<lparr>redis_client := (redis_client empty_world)\<lparr>entries :=
       [''courses:list:1:10:all:all:all:published:created_at:desc:none'' \<mapsto>
          (ListPayload [] (mk_pagination (Fin 1) (Fin 10) 0), 301000)]\<rparr>\<rparr>"
proof -
  have "list_from_store plain_engines (mongo empty_world) plain_list =
      Resolved (ListPayload [] (mk_pagination (Fin 1) (Fin 10) 0))"
    by (simp add: list_from_store_def plain_engines_def empty_world_def plain_list_def
        default_num_def Let_def)
  then show ?thesis
    unfolding listed_world_def get_courses_def plain_list_key
    by (simp add: redis_get_def redis_set_def empty_world_def)
qed

text \<open>
  C1. Every mutation should invalidate the cached lists, searches and statistics; the
  code does not. The upload handler builds the pattern \<^verbatim>\<open>courses:list:*\<close> and never
  deletes anything; the create handler deletes the one key that is literally
  \<^verbatim>\<open>courses:list:*\<close>, which no list entry has. Evaluated here: after the list was cached
  at time 1000 and a course was uploaded (or created) at time 2000, the store holds the
  course, and the list read at time 3000, within the five minutes of the entry, is served
  from the cache without it.
\<close>

theorem stale_list_after_mutation:
  "map course_id (docs (mongo uploaded_world)) = [''CS101'']
   \<and> map status (docs (mongo uploaded_world)) = [''published'']
   \<and> cached (fst (get_courses plain_engines 3000 plain_list uploaded_world)) = Some True
   \<and> data (fst (get_courses plain_engines 3000 plain_list uploaded_world)) =
        Some (ListPayload [] (mk_pagination (Fin 1) (Fin 10) 0))
   \<and> map course_id (docs (mongo created_world)) = [''CS101'']
   \<and> cached (fst (get_courses plain_engines 3000 plain_list created_world)) = Some True
   \<and> data (fst (get_courses plain_engines 3000 plain_list created_world)) =
        Some (ListPayload [] (mk_pagination (Fin 1) (Fin 10) 0))"
proof -
  let ?key = "''courses:list:1:10:all:all:all:published:created_at:desc:none''"
  let ?v = "ListPayload [] (mk_pagination (Fin 1) (Fin 10) 0)"
  have same: "mongo listed_world = mongo empty_world"
    "elasticsearch listed_world = elasticsearch empty_world"
    by (simp_all add: listed_world_eq)
  have up: "mongo uploaded_world =
      mongo (snd (post_courses_upload 2000 (upload_of [sample_row ''cs101'' ''Intro to CS'']) empty_world))"
    unfolding uploaded_world_def by (rule upload_store_depends[OF same])
  have cr: "mongo created_world =
      mongo (snd (post_courses 2000
            \<lparr> cr_authorization = Some ''Bearer abc'',
              cr_body = courseData (sample_row ''cs101'' ''Intro to CS'') \<rparr> empty_world))"
    unfolding created_world_def by (rule create_store_depends[OF same(1)])
  have d1: "map course_id (docs (mongo uploaded_world)) = [''CS101'']"
    unfolding up by code_simp
  have d2: "map status (docs (mongo uploaded_world)) = [''published'']"
    unfolding up by code_simp
  have d3: "map course_id (docs (mongo created_world)) = [''CS101'']"
    unfolding cr by code_simp
  have g0: "redis_get 3000 (redis_client listed_world) ?key = Some ?v"
    by (simp add: listed_world_eq redis_get_def empty_world_def)
  have g1: "redis_get 3000 (redis_client uploaded_world) (list_cache_key plain_list) = Some ?v"
    unfolding uploaded_world_def upload_keeps_cache plain_list_key by (rule g0)
  have "redis_get 3000 (snd (redis_del (redis_client listed_world) ''courses:list:*'')) ?key = Some ?v"
    by (simp add: listed_world_eq redis_get_def redis_del_def empty_world_def)
  with g0 create_cache[of 2000 "\<lparr> cr_authorization = Some ''Bearer abc'',
              cr_body = courseData (sample_row ''cs101'' ''Intro to CS'') \<rparr>" listed_world]
  have g2: "redis_get 3000 (redis_client created_world) (list_cache_key plain_list) = Some ?v"
    unfolding created_world_def plain_list_key by auto
  show ?thesis
    using d1 d2 d3 get_courses_hit[OF g1, of plain_engines] get_courses_hit[OF g2, of plain_engines]
    by simp
qed

theorem stale_list_after_mutation_check:
  "cached (fst (get_courses plain_engines 3000 plain_list uploaded_world)) = Some True
   \<and> redis_client uploaded_world = redis_client listed_world"
  using stale_list_after_mutation
    upload_keeps_cache[of 2000 "upload_of [sample_row ''cs101'' ''Intro to CS'']" listed_world]
  by (simp add: uploaded_world_def)

subsection \<open>C5: the cached flag\<close>

text \<open>
  C5, as amended. A response of one of the four read operations carries
  \<^verbatim>\<open>cached: true\<close>, together with the cached payload as its data, exactly when it is
  served from the cache; every other response of theirs (computed from the source of
  truth on a miss, or an error) has no \<^verbatim>\<open>cached\<close> key at all. \<^verbatim>\<open>cached: false\<close> never
  occurs.
\<close>

theorem cached_flag_only_on_hit:
  "(case redis_get now (redis_client w) (list_cache_key lrq) of
      Some v \<Rightarrow> cached (fst (get_courses eng now lrq w)) = Some True
                \<and> data (fst (get_courses eng now lrq w)) = Some v
    | None \<Rightarrow> cached (fst (get_courses eng now lrq w)) = None)
   \<and> (case redis_get now (redis_client w) (search_cache_key srq) of
      Some v \<Rightarrow>
        if truthy (sr_q srq) \<and> js_trim (opt_string (sr_q srq)) \<noteq> []
        then cached (fst (get_courses_search eng now srq w)) = Some True
             \<and> data (fst (get_courses_search eng now srq w)) = Some v
        else cached (fst (get_courses_search eng now srq w)) = None
    | None \<Rightarrow> cached (fst (get_courses_search eng now srq w)) = None)
   \<and> (case redis_get now (redis_client w) (single_cache_key i) of
      Some v \<Rightarrow> cached (fst (get_course_by_id now i w)) = Some True
                \<and> data (fst (get_course_by_id now i w)) = Some (CourseWrap v)
    | None \<Rightarrow> cached (fst (get_course_by_id now i w)) = None)
   \<and> (case redis_get now (redis_client w) stats_cache_key of
      Some v \<Rightarrow> cached (fst (get_courses_stats_overview eng now w)) = Some True
                \<and> data (fst (get_courses_stats_overview eng now w)) = Some v
    | None \<Rightarrow> cached (fst (get_courses_stats_overview eng now w)) = None)"
proof (intro conjI)
  show "case redis_get now (redis_client w) (list_cache_key lrq) of
      Some v \<Rightarrow> cached (fst (get_courses eng now lrq w)) = Some True
                \<and> data (fst (get_courses eng now lrq w)) = Some v
    | None \<Rightarrow> cached (fst (get_courses eng now lrq w)) = None"
    by (simp add: get_courses_def respond_def split: option.splits promise.splits)
  show "case redis_get now (redis_client w) (search_cache_key srq) of
      Some v \<Rightarrow>
        if truthy (sr_q srq) \<and> js_trim (opt_string (sr_q srq)) \<noteq> []
        then cached (fst (get_courses_search eng now srq w)) = Some True
             \<and> data (fst (get_courses_search eng now srq w)) = Some v
        else cached (fst (get_courses_search eng now srq w)) = None
    | None \<Rightarrow> cached (fst (get_courses_search eng now srq w)) = None"
    by (simp add: get_courses_search_def respond_def Let_def split: option.splits)
  show "case redis_get now (redis_client w) (single_cache_key i) of
      Some v \<Rightarrow> cached (fst (get_course_by_id now i w)) = Some True
                \<and> data (fst (get_course_by_id now i w)) = Some (CourseWrap v)
    | None \<Rightarrow> cached (fst (get_course_by_id now i w)) = None"
    by (simp add: get_course_by_id_def respond_def split: option.splits promise.splits)
  show "case redis_get now (redis_client w) stats_cache_key of
      Some v \<Rightarrow> cached (fst (get_courses_stats_overview eng now w)) = Some True
                \<and> data (fst (get_courses_stats_overview eng now w)) = Some v
    | None \<Rightarrow> cached (fst (get_courses_stats_overview eng now w)) = None"
    by (simp add: get_courses_stats_overview_def respond_def split: option.splits promise.splits)
qed

theorem cached_flag_only_on_hit_witness:
  "cached (fst (get_courses plain_engines 3000 plain_list listed_world)) = Some True
   \<and> data (fst (get_courses plain_engines 3000 plain_list listed_world)) =
        Some (ListPayload [] (mk_pagination (Fin 1) (Fin 10) 0))
   \<and> cached (fst (get_courses plain_engines 301000 plain_list listed_world)) = None"
proof -
  have g: "redis_get 3000 (redis_client listed_world) (list_cache_key plain_list) =
      Some (ListPayload [] (mk_pagination (Fin 1) (Fin 10) 0))"
    "redis_get 301000 (redis_client listed_world) (list_cache_key plain_list) = None"
    unfolding plain_list_key by (simp_all add: listed_world_eq redis_get_def empty_world_def)
  show ?thesis
    using cached_flag_only_on_hit[where now = 3000 and w = listed_world and lrq = plain_list
        and eng = plain_engines]
      cached_flag_only_on_hit[where now = 301000 and w = listed_world and lrq = plain_list
        and eng = plain_engines]
    by (simp add: g)
qed

text \<open>
  The claim as stated fails: on a miss the statistics and the list are computed from the
  store and the response has no \<^verbatim>\<open>cached\<close> key, rather than \<^verbatim>\<open>cached: false\<close>.
\<close>

theorem miss_response_has_no_cached_flag:
  "status_code (fst (get_courses_stats_overview plain_engines 1000 empty_world)) = 200
   \<and> data (fst (get_courses_stats_overview plain_engines 1000 empty_world)) =
        Some (StatsPayload empty_overview [])
   \<and> cached (fst (get_courses_stats_overview plain_engines 1000 empty_world)) = None
   \<and> cached (fst (get_courses_stats_overview plain_engines 1000 empty_world)) \<noteq> Some False
   \<and> status_code (fst (get_courses plain_engines 1000 plain_list empty_world)) = 200
   \<and> cached (fst (get_courses plain_engines 1000 plain_list empty_world)) = None"
  by (simp add: get_courses_stats_overview_def get_courses_def redis_get_def empty_world_def
      stats_from_store_def list_from_store_def plain_engines_def respond_def Let_def)

subsection \<open>C10: an empty search result cached while the index is away\<close>

lemma searchCourses_unavailable:
  "\<not> es_isConnected es \<or> \<not> es_has_client es \<Longrightarrow> searchCourses eng es q cat ins page sz = ([], 0)"
  by (auto simp: searchCourses_def)

lemma search_from_index_unavailable:
  "\<not> es_isConnected es \<or> \<not> es_has_client es \<Longrightarrow>
     search_from_index eng es rq =
       SearchPayload []
         (mk_pagination (parseInt_q (default_num (sr_page rq) 1))
            (parseInt_q (default_num (sr_size rq) 10)) 0)
         (opt_string (sr_q rq))"
  by (simp add: search_from_index_def searchCourses_unavailable Let_def)

text \<open>
  C10. When the search client is not connected (or has no client object) and the cache
  is reachable and holds no live entry for the query, a search with a non-blank query
  answers 200 with no hits and a count of 0, and stores that result under the search key
  with an expiry of 120 seconds; until then every identical request is answered from the
  cache with that empty result and \<^verbatim>\<open>cached: true\<close>, whatever the index has become in
  the meantime.
\<close>

theorem empty_search_result_cached:
  assumes "\<not> es_isConnected (elasticsearch w) \<or> \<not> es_has_client (elasticsearch w)"
    and "truthy (sr_q rq)" and "js_trim (opt_string (sr_q rq)) \<noteq> []"
    and "redis_isConnected (redis_client w)" and "redis_up (redis_client w)"
    and "redis_get t0 (redis_client w) (search_cache_key rq) = None"
    and "empty_result =
           SearchPayload []
             (mk_pagination (parseInt_q (default_num (sr_page rq) 1))
                (parseInt_q (default_num (sr_size rq) 10)) 0)
             (opt_string (sr_q rq))"
    and "t < t0 + 120000"
    and "redis_client w' = redis_client (snd (get_courses_search eng t0 rq w))"
  shows "fst (get_courses_search eng t0 rq w) =
           (respond 200 True ''Courses searched successfully'')\<lparr>data := Some empty_result\<rparr>
       \<and> entries (redis_client (snd (get_courses_search eng t0 rq w))) (search_cache_key rq) =
           Some (empty_result, t0 + 120000)
       \<and> get_courses_search eng' t rq w' =
           ((respond 200 True ''Search results retrieved from cache'')
              \<lparr>data := Some empty_result, cached := Some True\<rparr>, w')"
proof -
  have first: "get_courses_search eng t0 rq w =
      ((respond 200 True ''Courses searched successfully'')\<lparr>data := Some empty_result\<rparr>,
       w\<lparr>redis_client :=
           (redis_client w)\<lparr>entries :=
              (entries (redis_client w))(search_cache_key rq \<mapsto> (empty_result, t0 + 120000))\<rparr>\<rparr>)"
    using assms(2-7)
    by (simp add: get_courses_search_def search_from_index_unavailable[OF assms(1)]
        redis_set_def Let_def)
  have hit: "redis_get t (redis_client w') (search_cache_key rq) = Some empty_result"
    using assms(4,5,8,9) by (simp add: first redis_get_def)
  have again: "get_courses_search eng' t rq w' =
      ((respond 200 True ''Search results retrieved from cache'')
         \<lparr>data := Some empty_result, cached := Some True\<rparr>, w')"
    using assms(2,3) hit by (simp add: get_courses_search_def)
  show ?thesis
    using first again by simp
qed

theorem empty_search_result_cached_witness:
  "fst (get_courses_search plain_engines 3000 (search_for ''intro'') index_down_world) =
      (respond 200 True ''Courses searched successfully'')
        \<lparr>data := Some (SearchPayload [] (mk_pagination (Fin 1) (Fin 10) 0) ''intro'')\<rparr>
   \<and> get_courses_search plain_engines 122999 (search_for ''intro'')
        ((snd (get_courses_search plain_engines 3000 (search_for ''intro'') index_down_world))
           \<lparr>elasticsearch := elasticsearch uploaded_world\<rparr>) =
      ((respond 200 True ''Search results retrieved from cache'')
         \<lparr>data := Some (SearchPayload [] (mk_pagination (Fin 1) (Fin 10) 0) ''intro''),
          cached := Some True\<rparr>,
       (snd (get_courses_search plain_engines 3000 (search_for ''intro'') index_down_world))
           \<lparr>elasticsearch := elasticsearch uploaded_world\<rparr>)
   \<and> map_option d_course_id
        (index_docs (elasticsearch uploaded_world) ''000000000000000000000000'') = Some ''CS101''"
proof -
  let ?rq = "search_for ''intro''"
  let ?w1 = "snd (get_courses_search plain_engines 3000 ?rq index_down_world)"
  let ?w2 = "?w1\<lparr>elasticsearch := elasticsearch uploaded_world\<rparr>"
  have key: "search_cache_key ?rq = ''courses:search:intro:all:all:1:10''"
    by code_simp
  have rc: "redis_client index_down_world = redis_client listed_world"
    by (simp add: index_down_world_def uploaded_world_def upload_keeps_cache)
  have a1: "\<not> es_isConnected (elasticsearch index_down_world) \<or>
      \<not> es_has_client (elasticsearch index_down_world)"
    by (simp add: index_down_world_def)
  have a2: "truthy (sr_q ?rq)" "js_trim (opt_string (sr_q ?rq)) \<noteq> []"
    by code_simp+
  have a4: "redis_isConnected (redis_client index_down_world)" "redis_up (redis_client index_down_world)"
    unfolding rc by (simp_all add: listed_world_eq empty_world_def)
  have a6: "redis_get 3000 (redis_client index_down_world) (search_cache_key ?rq) = None"
    unfolding rc key by (simp add: listed_world_eq redis_get_def empty_world_def)
  have a7: "SearchPayload [] (mk_pagination (Fin 1) (Fin 10) 0) ''intro'' =
      SearchPayload []
        (mk_pagination (parseInt_q (default_num (sr_page ?rq) 1))
           (parseInt_q (default_num (sr_size ?rq) 10)) 0)
        (opt_string (sr_q ?rq))"
    by (simp add: search_for_def default_num_def opt_string_def)
  have a8: "(122999::nat) < 3000 + 120000"
    by simp
  have a9: "redis_client ?w2 = redis_client ?w1"
    by simp
  have same: "mongo listed_world = mongo empty_world"
    "elasticsearch listed_world = elasticsearch empty_world"
    by (simp_all add: listed_world_eq)
  have es: "elasticsearch uploaded_world =
      elasticsearch (snd (post_courses_upload 2000 (upload_of [sample_row ''cs101'' ''Intro to CS'']) empty_world))"
    unfolding uploaded_world_def using same
    by (simp add: post_courses_upload_def case_prod_beta split: option.splits csv_file.splits)
  have ix: "map_option d_course_id
        (index_docs (elasticsearch uploaded_world) ''000000000000000000000000'') = Some ''CS101''"
    unfolding es by code_simp
  from empty_search_result_cached[OF a1 a2 a4 a6 a7 a8 a9, of plain_engines] ix
  show ?thesis by simp
qed

subsection \<open>C9: the default status\<close>







subsection \<open>C8: the resynchronisation sweep\<close>

lemma digits_val_append:
  "digits_val acc (xs @ ys) = digits_val (digits_val acc xs) ys"
  by (induction xs arbitrary: acc) simp_all

lemma digit_val_nth: "d < 10 \<Longrightarrow> digit_val (digit_chars ! d) = d"
proof -
  assume "d < 10"
  then have "d \<in> {0, 1, 2, 3, 4, 5, 6, 7, 8, 9}" by auto
  then show ?thesis
    by (auto simp: digit_val_def digit_chars_def)
qed

lemma digits_val_show_nat: "digits_val 0 (show_nat n) = n"
proof (induction n rule: show_nat.induct)
  case (1 n)
  show ?case
  proof (cases "n < 10")
    case True
    then show ?thesis
      by (subst show_nat.simps) (simp add: digit_val_nth)
  next
    case False
    then have "digits_val 0 (show_nat n) =
        digits_val (digits_val 0 (show_nat (n div 10))) [digit_chars ! (n mod 10)]"
      by (subst show_nat.simps) (simp add: digits_val_append)
    also have "\<dots> = 10 * (n div 10) + n mod 10"
      using 1[OF False] by (simp add: digit_val_nth)
    finally show ?thesis by simp
  qed
qed

lemma digit_val_zero: "digit_val CHR ''0'' = 0"
  by (simp add: digit_val_def digit_chars_def)

lemma digits_val_zeros: "digits_val 0 (replicate k CHR ''0'' @ s) = digits_val 0 s"
proof (induction k)
  case 0
  show ?case by simp
next
  case (Suc k)
  have "digits_val 0 (replicate (Suc k) CHR ''0'' @ s) =
      digits_val (10 * 0 + digit_val CHR ''0'') (replicate k CHR ''0'' @ s)"
    by simp
  also have "\<dots> = digits_val 0 (replicate k CHR ''0'' @ s)"
    by (simp only: digit_val_zero mult_0_right add_0)
  finally show ?case using Suc by simp
qed

lemma mk_oid_value: "digits_val 0 (mk_oid n) = n"
  unfolding mk_oid_def by (simp only: digits_val_zeros digits_val_show_nat)

lemma mk_oid_inject:
  assumes "mk_oid m = mk_oid n"
  shows "m = n"
proof -
  have "m = digits_val 0 (mk_oid m)"
    by (simp only: mk_oid_value)
  also have "\<dots> = digits_val 0 (mk_oid n)"
    by (simp only: assms)
  also have "\<dots> = n"
    by (simp only: mk_oid_value)
  finally show ?thesis .
qed

lemma index_all_off:
  "\<not> es_isConnected es \<or> \<not> es_has_client es \<or> \<not> es_up es \<Longrightarrow>
     foldl (\<lambda>e c. snd (indexCourse e c)) es cs = es"
  by (induction cs arbitrary: es) (auto simp: indexCourse_def)

lemma index_all_on:
  "es_isConnected es \<Longrightarrow> es_has_client es \<Longrightarrow> es_up es \<Longrightarrow>
     foldl (\<lambda>e c. snd (indexCourse e c)) es cs =
       es\<lparr>index_docs := index_docs es ++ map_of (rev (map (\<lambda>c. (oid c, index_body c)) cs))\<rparr>"
proof (induction cs arbitrary: es)
  case Nil
  then show ?case by simp
next
  case (Cons c cs)
  let ?es = "es\<lparr>index_docs := (index_docs es)(oid c \<mapsto> index_body c)\<rparr>"
  have s: "snd (indexCourse es c) = ?es"
    using Cons.prems by (simp add: indexCourse_def)
  have "foldl (\<lambda>e c. snd (indexCourse e c)) ?es cs =
      ?es\<lparr>index_docs := index_docs ?es ++ map_of (rev (map (\<lambda>c. (oid c, index_body c)) cs))\<rparr>"
    using Cons.prems by (intro Cons.IH) simp_all
  moreover have "index_docs ?es ++ map_of (rev (map (\<lambda>c. (oid c, index_body c)) cs)) =
      index_docs es ++ map_of (rev (map (\<lambda>c. (oid c, index_body c)) (c # cs)))"
    by (rule ext) (simp add: map_add_def split: option.splits)
  ultimately show ?case
    by (simp add: s)
qed

lemma map_add_twice: "(m ++ f) ++ f = m ++ f"
  by (rule ext) (simp add: map_add_def split: option.splits)

lemma index_all_twice:
  "foldl (\<lambda>e c. snd (indexCourse e c)) (foldl (\<lambda>e c. snd (indexCourse e c)) es cs) cs =
     foldl (\<lambda>e c. snd (indexCourse e c)) es cs"
proof (cases "es_isConnected es \<and> es_has_client es \<and> es_up es")
  case True
  then show ?thesis
    by (simp add: index_all_on map_add_twice)
next
  case False
  then show ?thesis
    by (simp add: index_all_off)
qed

text \<open>
  C8, as amended. The sweep is idempotent: run twice in succession on the same store, it
  leaves the index exactly as one run does, so every search gives the same answer after
  the second run as after the first. Each run reads the published records of the store,
  at most the first 1000 of them, and upserts each under its \<^verbatim>\<open>_id\<close>: when the index
  is reachable, the documents afterwards are the earlier ones overwritten by those of
  these records.
\<close>

theorem resync_idempotent:
  "syncCoursesToElasticsearch d (syncCoursesToElasticsearch d es) = syncCoursesToElasticsearch d es
   \<and> searchCourses eng (syncCoursesToElasticsearch d (syncCoursesToElasticsearch d es)) q cat ins page sz =
       searchCourses eng (syncCoursesToElasticsearch d es) q cat ins page sz
   \<and> (es_isConnected es \<and> es_has_client es \<and> es_up es \<and> db_fault d = None \<longrightarrow>
        index_docs (syncCoursesToElasticsearch d es) =
          index_docs es ++
            map_of (rev (map (\<lambda>c. (oid c, index_body c))
                           (take 1000 (filter (\<lambda>c. status c = ''published'') (docs d))))))"
proof -
  have flags: "isHealthy (foldl (\<lambda>e c. snd (indexCourse e c)) es cs) = isHealthy es" for cs
    by (cases "es_isConnected es \<and> es_has_client es \<and> es_up es")
      (auto simp: index_all_on index_all_off isHealthy_def)
  have idem: "syncCoursesToElasticsearch d (syncCoursesToElasticsearch d es) =
      syncCoursesToElasticsearch d es"
    by (cases "db_fault d")
      (simp_all add: syncCoursesToElasticsearch_def find_published_def flags index_all_twice)
  have docs: "es_isConnected es \<and> es_has_client es \<and> es_up es \<and> db_fault d = None \<longrightarrow>
        index_docs (syncCoursesToElasticsearch d es) =
          index_docs es ++
            map_of (rev (map (\<lambda>c. (oid c, index_body c))
                           (take 1000 (filter (\<lambda>c. status c = ''published'') (docs d)))))"
    by (simp add: syncCoursesToElasticsearch_def find_published_def isHealthy_def index_all_on)
  from idem docs show ?thesis by simp
qed

lemma many_courses_published:
  "filter (\<lambda>c. status c = ''published'') (docs many_courses) = map numbered_course [0 ..< 1001]"
  by (simp add: many_courses_def numbered_course_def filter_map o_def)

lemma many_courses_first:
  "take 1000 (map numbered_course [0 ..< 1001]) = map numbered_course [0 ..< 1000]"
  by (simp add: take_map)

theorem resync_idempotent_witness:
  "syncCoursesToElasticsearch many_courses
     (syncCoursesToElasticsearch many_courses (elasticsearch empty_world)) =
     syncCoursesToElasticsearch many_courses (elasticsearch empty_world)
   \<and> map_option d_course_id
       (index_docs (syncCoursesToElasticsearch many_courses (elasticsearch empty_world)) (mk_oid 7)) =
       Some ''C7''"
proof -
  note th = resync_idempotent[where d = many_courses and es = "elasticsearch empty_world"]
  have on: "es_isConnected (elasticsearch empty_world) \<and> es_has_client (elasticsearch empty_world)
      \<and> es_up (elasticsearch empty_world) \<and> db_fault many_courses = None"
    by (simp add: empty_world_def many_courses_def)
  have ix: "index_docs (syncCoursesToElasticsearch many_courses (elasticsearch empty_world)) =
      index_docs (elasticsearch empty_world) ++
        map_of (rev (map (\<lambda>c. (oid c, index_body c)) (map numbered_course [0 ..< 1000])))"
    using th on unfolding many_courses_published many_courses_first by blast
  have "map_of (rev (map (\<lambda>c. (oid c, index_body c)) (map numbered_course [0 ..< 1000]))) (mk_oid 7) =
      Some (index_body (numbered_course 7))"
  proof (rule map_of_is_SomeI)
    show "distinct (map fst (rev (map (\<lambda>c. (oid c, index_body c)) (map numbered_course [0 ..< 1000]))))"
      by (auto simp: rev_map[symmetric] distinct_map o_def numbered_course_def
          intro!: inj_onI dest: mk_oid_inject)
    show "(mk_oid 7, index_body (numbered_course 7)) \<in>
        set (rev (map (\<lambda>c. (oid c, index_body c)) (map numbered_course [0 ..< 1000])))"
      by (auto simp: numbered_course_def intro!: image_eqI[where x = 7])
  qed
  then have "map_option d_course_id
       (index_docs (syncCoursesToElasticsearch many_courses (elasticsearch empty_world)) (mk_oid 7)) =
       Some ''C7''"
    unfolding ix
    by (simp add: map_add_def index_body_def numbered_course_def show_nat.simps digit_chars_def)
  with th show ?thesis by blast
qed

text \<open>
  The claim as stated fails where it says that the sweep upserts every published record:
  with 1001 published courses in the store and an empty, reachable index, one sweep leaves
  the last course out of the index, which the sweep over all published records would hold.
\<close>

theorem resync_stops_after_1000:
  "status (numbered_course 1000) = ''published''
   \<and> numbered_course 1000 \<in> set (docs many_courses)
   \<and> index_docs (syncCoursesToElasticsearch many_courses (elasticsearch empty_world))
        (oid (numbered_course 1000)) = None
   \<and> index_docs (resync_all_published many_courses (elasticsearch empty_world))
        (oid (numbered_course 1000)) = Some (index_body (numbered_course 1000))"
proof -
  have on: "es_isConnected (elasticsearch empty_world)" "es_has_client (elasticsearch empty_world)"
    "es_up (elasticsearch empty_world)" "db_fault many_courses = None"
    "index_docs (elasticsearch empty_world) = Map.empty"
    by (simp_all add: empty_world_def many_courses_def)
  have s: "index_docs (syncCoursesToElasticsearch many_courses (elasticsearch empty_world)) =
      map_of (rev (map (\<lambda>c. (oid c, index_body c)) (map numbered_course [0 ..< 1000])))"
    using on
    by (simp add: syncCoursesToElasticsearch_def find_published_def isHealthy_def index_all_on
        many_courses_published many_courses_first)
  have a: "resync_all_published many_courses (elasticsearch empty_world) =
      (elasticsearch empty_world)\<lparr>index_docs :=
        map_of (rev (map (\<lambda>c. (oid c, index_body c)) (map numbered_course [0 ..< 1001])))\<rparr>"
    using on
    by (simp add: resync_all_published_def isHealthy_def index_all_on many_courses_published)
  have none: "map_of (rev (map (\<lambda>c. (oid c, index_body c)) (map numbered_course [0 ..< 1000])))
      (oid (numbered_course 1000)) = None"
    by (auto simp: map_of_eq_None_iff numbered_course_def dest: mk_oid_inject)
  have some: "map_of (rev (map (\<lambda>c. (oid c, index_body c)) (map numbered_course [0 ..< 1001])))
      (oid (numbered_course 1000)) = Some (index_body (numbered_course 1000))"
  proof (rule map_of_is_SomeI)
    show "distinct (map fst (rev (map (\<lambda>c. (oid c, index_body c)) (map numbered_course [0 ..< 1001]))))"
      by (auto simp: rev_map[symmetric] distinct_map o_def numbered_course_def
          intro!: inj_onI dest: mk_oid_inject)
    show "(oid (numbered_course 1000), index_body (numbered_course 1000)) \<in>
        set (rev (map (\<lambda>c. (oid c, index_body c)) (map numbered_course [0 ..< 1001])))"
      by (auto intro!: image_eqI[where x = 1000])
  qed
  have p: "status (numbered_course 1000) = ''published''"
    by (simp add: numbered_course_def)
  have m: "numbered_course 1000 \<in> set (docs many_courses)"
    by (simp add: many_courses_def)
  show ?thesis
    using p m none some by (simp add: s a)
qed

subsection \<open>C7: reads without the cache\<close>





subsection \<open>C6: reading a course right after creating it\<close>

lemma create_response_depends:
  "mongo w = mongo w' \<Longrightarrow> fst (post_courses now rq w) = fst (post_courses now rq w')"
  by (simp add: post_courses_def create_course_def
      split: sum.splits save_error.splits prod.splits)

lemma get_course_by_id_hit:
  "redis_get now (redis_client w) (single_cache_key i) = Some v \<Longrightarrow>
     get_course_by_id now i w =
       ((respond 200 True ''Course retrieved from cache'')
          \<lparr>data := Some (CourseWrap v), cached := Some True\<rparr>, w)"
  by (simp add: get_course_by_id_def)

lemma find_append_last:
  "\<forall>x\<in>set xs. \<not> P x \<Longrightarrow> P c \<Longrightarrow> find P (xs @ [c]) = Some c"
  by (induction xs) simp_all

lemma course_save_no_fault:
  "course_save now d inp = Inr (c, d') \<Longrightarrow> db_fault d = None"
  by (auto simp: course_save_def split: option.splits)

text \<open>
  C6, as amended. After a create has stored the course \<open>c\<close>, a read by the \<^verbatim>\<open>_id\<close> of
  \<open>c\<close> (an identifier that casts to that ObjectId) returns exactly \<open>c\<close>, from the
  store, provided that the cache holds no live entry under that identifier's key (or is
  unavailable) and that no older document answers to the same identifier. The create
  never removes a single-record entry, so a live one is served instead. Nothing is said
  here of a read by \<^verbatim>\<open>course_id\<close>.
\<close>

theorem read_after_create_from_store:
  assumes "data (fst (post_courses now crq w)) = Some (CourseWrap (CoursePayload c))"
    and "cast_ObjectId i = Some (oid c)"
    and "\<forall>x\<in>set (docs (mongo w)). oid x \<noteq> oid c \<and> course_id x \<noteq> toUpperCase i"
    and "redis_get t (redis_client (snd (post_courses now crq w))) (single_cache_key i) = None"
  shows "fst (get_course_by_id t i (snd (post_courses now crq w))) =
           (respond 200 True ''Course retrieved successfully'')
             \<lparr>data := Some (CourseWrap (CoursePayload c))\<rparr>"
proof -
  from assms(1) obtain u where u: "authenticateToken (cr_authorization crq) = Inr u"
    by (cases "authenticateToken (cr_authorization crq)")
      (auto simp: post_courses_def authenticateToken_def respond_def split: if_splits)
  from assms(1) u obtain d' where
    s: "course_save now (mongo w) ((cr_body crq)\<lparr>in_created_by := Some (user_id u)\<rparr>) = Inr (c, d')"
    by (cases "course_save now (mongo w) ((cr_body crq)\<lparr>in_created_by := Some (user_id u)\<rparr>)")
      (auto simp: post_courses_def create_course_def respond_def split: save_error.splits)
  have m: "mongo (snd (post_courses now crq w)) = d'"
    using u s by (simp add: post_courses_def create_course_def)
  have d: "docs d' = docs (mongo w) @ [c]" "db_fault d' = None"
    using course_save_docs[OF s] course_save_no_fault[OF s] by simp_all
  have "find (\<lambda>x. oid x = oid c \<or> course_id x = toUpperCase i) (docs (mongo w) @ [c]) = Some c"
    using assms(3) by (intro find_append_last) auto
  then have f: "findOne_by_id (mongo (snd (post_courses now crq w))) i = Resolved (Some c)"
    by (simp add: findOne_by_id_def assms(2) m d)
  show ?thesis
    by (simp add: get_course_by_id_def assms(4) f)
qed

theorem read_after_create_from_store_witness:
  "map title (docs (mongo (snd (post_courses 2000 create_cs101 empty_world)))) = [''Intro to CS'']
   \<and> map oid (docs (mongo (snd (post_courses 2000 create_cs101 empty_world)))) =
       [''000000000000000000000000'']
   \<and> fst (get_course_by_id 3000 ''000000000000000000000000''
            (snd (post_courses 2000 create_cs101 empty_world))) =
       (respond 200 True ''Course retrieved successfully'')
         \<lparr>data := Some (CourseWrap (CoursePayload
                    (hd (docs (mongo (snd (post_courses 2000 create_cs101 empty_world)))))))\<rparr>"
proof -
  let ?w' = "snd (post_courses 2000 create_cs101 empty_world)"
  let ?c = "hd (docs (mongo ?w'))"
  have a1: "data (fst (post_courses 2000 create_cs101 empty_world)) = Some (CourseWrap (CoursePayload ?c))"
    by code_simp
  have a2: "cast_ObjectId ''000000000000000000000000'' = Some (oid ?c)"
    by code_simp
  have a3: "\<forall>x\<in>set (docs (mongo empty_world)).
      oid x \<noteq> oid ?c \<and> course_id x \<noteq> toUpperCase ''000000000000000000000000''"
    by (simp add: empty_world_def)
  have "redis_client ?w' = redis_client empty_world
      \<or> redis_client ?w' = snd (redis_del (redis_client empty_world) ''courses:list:*'')"
    by (rule create_cache)
  then have a4: "redis_get 3000 (redis_client ?w') (single_cache_key ''000000000000000000000000'') = None"
    by (auto simp: redis_get_def redis_del_def empty_world_def)
  have t: "map title (docs (mongo ?w')) = [''Intro to CS'']"
    by code_simp
  have o: "map oid (docs (mongo ?w')) = [''000000000000000000000000'']"
    by code_simp
  from t o read_after_create_from_store[OF a1 a2 a3 a4] show ?thesis
    by (intro conjI)
qed

text \<open>
  The claim as stated fails for a cache that holds a live entry under the key: the
  create succeeds and stores the new title under the \<^verbatim>\<open>course_id\<close>
  \<^verbatim>\<open>0123456789ABCDEF01234567\<close>, an identifier that casts to an ObjectId, and the read by
  that identifier which follows is served the old course from the cache.
\<close>

theorem stale_single_record_after_create:
  "status_code (fst (post_courses 2000 recreate_request stale_single_world)) = 201
   \<and> map course_id (docs (mongo (snd (post_courses 2000 recreate_request stale_single_world)))) =
       [''0123456789ABCDEF01234567'']
   \<and> map title (docs (mongo (snd (post_courses 2000 recreate_request stale_single_world)))) =
       [''Intro to CS'']
   \<and> cast_ObjectId ''0123456789ABCDEF01234567'' = Some ''0123456789abcdef01234567''
   \<and> fst (get_course_by_id 3000 ''0123456789ABCDEF01234567''
            (snd (post_courses 2000 recreate_request stale_single_world))) =
       (respond 200 True ''Course retrieved from cache'')
         \<lparr>data := Some (CourseWrap (CoursePayload old_course)), cached := Some True\<rparr>
   \<and> title old_course = ''Old title''"
proof -
  let ?w' = "snd (post_courses 2000 recreate_request stale_single_world)"
  have same: "mongo stale_single_world = mongo empty_world"
    by (simp add: stale_single_world_def)
  have r: "fst (post_courses 2000 recreate_request stale_single_world) =
      fst (post_courses 2000 recreate_request empty_world)"
    by (rule create_response_depends[OF same])
  have m: "mongo ?w' = mongo (snd (post_courses 2000 recreate_request empty_world))"
    by (rule create_store_depends[OF same])
  have s: "status_code (fst (post_courses 2000 recreate_request stale_single_world)) = 201"
    unfolding r by code_simp
  have d1: "map course_id (docs (mongo ?w')) = [''0123456789ABCDEF01234567'']"
    unfolding m by code_simp
  have d2: "map title (docs (mongo ?w')) = [''Intro to CS'']"
    unfolding m by code_simp
  have c: "cast_ObjectId ''0123456789ABCDEF01234567'' = Some ''0123456789abcdef01234567''"
    by code_simp
  have k: "single_cache_key ''0123456789ABCDEF01234567'' = ''courses:single:0123456789ABCDEF01234567''"
    by (simp add: single_cache_key_def getCacheKey_def)
  have "redis_client ?w' = redis_client stale_single_world
      \<or> redis_client ?w' = snd (redis_del (redis_client stale_single_world) ''courses:list:*'')"
    by (rule create_cache)
  then have g: "redis_get 3000 (redis_client ?w') (single_cache_key ''0123456789ABCDEF01234567'') =
      Some (CoursePayload old_course)"
    unfolding k by (auto simp: redis_get_def redis_del_def stale_single_world_def empty_world_def)
  have o: "title old_course = ''Old title''"
    by (simp add: old_course_def)
  have h: "fst (get_course_by_id 3000 ''0123456789ABCDEF01234567'' ?w') =
       (respond 200 True ''Course retrieved from cache'')
         \<lparr>data := Some (CourseWrap (CoursePayload old_course)), cached := Some True\<rparr>"
    using get_course_by_id_hit[OF g] by simp
  from s d1 d2 c h o show ?thesis
    by (intro conjI)
qed

end
